theory Spec2Isabelle
  imports Complex_Main
begin

section \<open>Scaled dot-product attention notebook: data model\<close>

text \<open>
  The notebook \<^verbatim>\<open>C4_W1_Ungraded_Lab_2_QKV_Attention.ipynb\<close> holds two versions of the
  attention routines: the code cells that are executed (\<open>softmax\<close>, \<open>calculate_weights\<close>,
  \<open>attention_qkv\<close>) and the reference solution printed in the last markdown cell (here with
  the suffix \<open>_sol\<close>). Both are embedded. \<open>softmax\<close> and \<open>calculate_weights\<close> come twice: over
  the real numbers, for the values they compute and the errors they raise where double
  arithmetic is well behaved, and over doubles with their infinities and NaN (suffix \<open>64\<close>,
  with \<open>attention_qkv\<close>), for what they do where \<open>np.exp\<close> overflows.
\<close>

datatype error = ValueError | IndexError | AssertionError | AxisError | KeyError

text \<open>
  A two-dimensional numpy array: its shape is \<open>(length (rowlist a), width a)\<close>. The column
  count is kept apart from the rows, as an array with no rows still has one.
\<close>

record ndarray =
  width :: nat
  rowlist :: "real list list"

definition shape0 :: "ndarray \<Rightarrow> nat" where
  "shape0 a = length (rowlist a)"

definition is_2d :: "ndarray \<Rightarrow> bool" where
  "is_2d a = list_all (\<lambda>r. length r = width a) (rowlist a)"

definition elem :: "ndarray \<Rightarrow> nat \<Rightarrow> nat \<Rightarrow> real" where
  "elem a i j = rowlist a ! i ! j"

definition tabulate :: "nat \<Rightarrow> nat \<Rightarrow> (nat \<Rightarrow> nat \<Rightarrow> real) \<Rightarrow> ndarray" where
  "tabulate r c f = \<lparr>width = c, rowlist = map (\<lambda>i. map (\<lambda>j. f i j) [0..<c]) [0..<r]\<rparr>"

definition bind_res :: "error + 'a \<Rightarrow> ('a \<Rightarrow> error + 'b) \<Rightarrow> error + 'b" where
  "bind_res r f = (case r of Inl e \<Rightarrow> Inl e | Inr v \<Rightarrow> f v)"

section \<open>The numpy operations the notebook calls\<close>

text \<open>
  First over the real numbers, where \<open>exp\<close> never overflows and sums are compared exactly;
  the facts proved of these definitions are about inputs on which doubles do the same. The
  definitions over doubles follow the reference solution.
\<close>

text \<open>\<^verbatim>\<open>a.T\<close>\<close>

definition transpose_nd :: "ndarray \<Rightarrow> ndarray" where
  "transpose_nd a = tabulate (width a) (shape0 a) (\<lambda>i j. elem a j i)"

text \<open>\<^verbatim>\<open>np.dot(a, b)\<close> on two-dimensional arrays: ValueError when the shapes are not aligned.\<close>

definition np_dot :: "ndarray \<Rightarrow> ndarray \<Rightarrow> error + ndarray" where
  "np_dot a b =
     (if width a \<noteq> shape0 b then Inl ValueError
      else Inr (tabulate (shape0 a) (width b)
             (\<lambda>i j. sum_list (map (\<lambda>k. elem a i k * elem b k j) [0..<width a]))))"

text \<open>\<^verbatim>\<open>np.matmul(a, b)\<close>: on two-dimensional arrays the same product and the same error.\<close>

definition np_matmul :: "ndarray \<Rightarrow> ndarray \<Rightarrow> error + ndarray" where
  "np_matmul a b = np_dot a b"

text \<open>\<^verbatim>\<open>np.exp(a)\<close>, elementwise.\<close>

definition np_exp :: "ndarray \<Rightarrow> ndarray" where
  "np_exp a = \<lparr>width = width a, rowlist = map (map exp) (rowlist a)\<rparr>"

text \<open>\<^verbatim>\<open>a / s\<close> for a scalar \<open>s\<close>.\<close>

definition div_scalar :: "ndarray \<Rightarrow> real \<Rightarrow> ndarray" where
  "div_scalar a s = \<lparr>width = width a, rowlist = map (map (\<lambda>v. v / s)) (rowlist a)\<rparr>"

text \<open>
  \<^verbatim>\<open>np.sum(a, axis=axis)\<close>: a one-dimensional array, the sums of the rows for axis 1 (or -1),
  of the columns for axis 0 (or -2); any other axis is out of bounds.
\<close>

definition np_sum :: "ndarray \<Rightarrow> int \<Rightarrow> error + real list" where
  "np_sum a axis =
     (if axis = 1 \<or> axis = -1 then Inr (map sum_list (rowlist a))
      else if axis = 0 \<or> axis = -2
        then Inr (map (\<lambda>j. sum_list (map (\<lambda>r. r ! j) (rowlist a))) [0..<width a])
      else Inl AxisError)"

text \<open>
  \<^verbatim>\<open>np.expand_dims(v, axis)\<close> of a one-dimensional array: a column for axis 1 (or -1), a row
  for axis 0 (or -2).
\<close>

definition expand_dims :: "real list \<Rightarrow> int \<Rightarrow> error + ndarray" where
  "expand_dims v axis =
     (if axis = 1 \<or> axis = -1 then Inr \<lparr>width = 1, rowlist = map (\<lambda>x. [x]) v\<rparr>
      else if axis = 0 \<or> axis = -2 then Inr \<lparr>width = length v, rowlist = [v]\<rparr>
      else Inl AxisError)"

text \<open>
  \<^verbatim>\<open>a / b\<close> with numpy's broadcasting: two extents are compatible when they are equal or one
  of them is 1, and the extent 1 is stretched to the other; otherwise ValueError.
\<close>

definition nd_div :: "ndarray \<Rightarrow> ndarray \<Rightarrow> error + ndarray" where
  "nd_div a b =
     (let r1 = shape0 a; c1 = width a; r2 = shape0 b; c2 = width b in
      if (r1 = r2 \<or> r1 = 1 \<or> r2 = 1) \<and> (c1 = c2 \<or> c1 = 1 \<or> c2 = 1)
      then Inr (tabulate (if r1 = 1 then r2 else r1) (if c1 = 1 then c2 else c1)
             (\<lambda>i j. elem a (if r1 = 1 then 0 else i) (if c1 = 1 then 0 else j)
                  / elem b (if r2 = 1 then 0 else i) (if c2 = 1 then 0 else j)))
      else Inl ValueError)"

section \<open>The executed code cells\<close>

text \<open>
  \<open>softmax\<close> of the exercise cell:
  \<^verbatim>\<open>return np.exp(x)/np.expand_dims(np.sum(np.exp(x),axis=axis),axis=1)\<close>. The sum is
  always expanded along axis 1, whatever \<open>axis\<close> is.
\<close>

definition softmax :: "ndarray \<Rightarrow> int \<Rightarrow> error + ndarray" where
  "softmax x axis =
     bind_res (np_sum (np_exp x) axis) (\<lambda>s.
     bind_res (expand_dims s 1) (\<lambda>d.
     nd_div (np_exp x) d))"

text \<open>
  \<^verbatim>\<open>dot = np.dot(queries, keys.T); weights = softmax(dot, axis=1)\<close>, then the assertion
  \<^verbatim>\<open>weights.sum(axis=1)[0] == 1\<close>: the index 0 raises IndexError on an array with no rows.
\<close>

definition calculate_weights :: "ndarray \<Rightarrow> ndarray \<Rightarrow> error + ndarray" where
  "calculate_weights queries keys =
     bind_res (np_dot queries (transpose_nd keys)) (\<lambda>dot.
     bind_res (softmax dot 1) (\<lambda>weights.
     bind_res (np_sum weights 1) (\<lambda>row_sums.
       case row_sums of
         [] \<Rightarrow> Inl IndexError
       | s0 # _ \<Rightarrow> if s0 = 1 then Inr weights else Inl AssertionError)))"

section \<open>The reference solution of the last cell\<close>

text \<open>
  \<open>softmax\<close> of the solution:
  \<^verbatim>\<open>y = np.exp(x); return y / np.expand_dims(np.sum(y, axis=axis), axis)\<close>
\<close>

definition softmax_sol :: "ndarray \<Rightarrow> int \<Rightarrow> error + ndarray" where
  "softmax_sol x axis =
     (let y = np_exp x in
      bind_res (np_sum y axis) (\<lambda>s.
      bind_res (expand_dims s axis) (\<lambda>d.
      nd_div y d)))"

text \<open>
  \<^verbatim>\<open>dot = np.matmul(queries, keys.T)/np.sqrt(keys.shape[1])\<close>. With \<open>keys.shape[1] = 0\<close> numpy
  divides by 0.0 (giving NaN, no exception), which real division does not show: the results
  on non-empty scores below all assume at least one column.
\<close>

definition calculate_weights_sol :: "ndarray \<Rightarrow> ndarray \<Rightarrow> error + ndarray" where
  "calculate_weights_sol queries keys =
     bind_res (np_matmul queries (transpose_nd keys)) (\<lambda>product.
     let dot = div_scalar product (sqrt (real (width keys))) in
     bind_res (softmax_sol dot 1) (\<lambda>weights.
     bind_res (np_sum weights 1) (\<lambda>row_sums.
       case row_sums of
         [] \<Rightarrow> Inl IndexError
       | s0 # _ \<Rightarrow> if s0 = 1 then Inr weights else Inl AssertionError)))"

section \<open>Doubles with their special values\<close>

text \<open>
  A numpy \<open>float64\<close> as far as overflow matters: a finite number, an infinity or NaN. The
  result of an operation on finite numbers is the exact result, made an infinity where its
  magnitude reaches \<open>2\<^sup>1\<^sup>0\<^sup>2\<^sup>4 - 2\<^sup>9\<^sup>7\<^sup>0\<close> (from there on round-to-nearest overflows) and zero
  where it is at most \<open>2\<^sup>-\<^sup>1\<^sup>0\<^sup>7\<^sup>5\<close> (half the least subnormal). Rounding to 53 bits and the
  sign of zero are not represented. numpy raises no exception for overflow, division by zero
  or an invalid operation: it warns and returns the special value.
\<close>

datatype float64 = Finite real | PosInf | NegInf | NaN

definition overflow_threshold :: real where
  "overflow_threshold = 2 ^ 1024 - 2 ^ 970"

definition underflow_threshold :: real where
  "underflow_threshold = 1 / 2 ^ 1075"

definition to_float64 :: "real \<Rightarrow> float64" where
  "to_float64 r =
     (if overflow_threshold \<le> r then PosInf
      else if r \<le> - overflow_threshold then NegInf
      else if \<bar>r\<bar> \<le> underflow_threshold then Finite 0
      else Finite r)"

text \<open>The infinity with the sign of \<open>s\<close>, and NaN for zero (as in \<open>inf * 0\<close> and \<open>0 / 0\<close>).\<close>

definition signed_inf :: "real \<Rightarrow> float64" where
  "signed_inf s = (if 0 < s then PosInf else if s < 0 then NegInf else NaN)"

definition f_add :: "float64 \<Rightarrow> float64 \<Rightarrow> float64" where
  "f_add x y =
     (case x of
        Finite a \<Rightarrow> (case y of Finite b \<Rightarrow> to_float64 (a + b) | other \<Rightarrow> other)
      | PosInf \<Rightarrow> (case y of NegInf \<Rightarrow> NaN | NaN \<Rightarrow> NaN | other \<Rightarrow> PosInf)
      | NegInf \<Rightarrow> (case y of PosInf \<Rightarrow> NaN | NaN \<Rightarrow> NaN | other \<Rightarrow> NegInf)
      | NaN \<Rightarrow> NaN)"

definition f_mul :: "float64 \<Rightarrow> float64 \<Rightarrow> float64" where
  "f_mul x y =
     (case x of
        Finite a \<Rightarrow>
          (case y of Finite b \<Rightarrow> to_float64 (a * b) | PosInf \<Rightarrow> signed_inf a
           | NegInf \<Rightarrow> signed_inf (- a) | NaN \<Rightarrow> NaN)
      | PosInf \<Rightarrow>
          (case y of Finite b \<Rightarrow> signed_inf b | PosInf \<Rightarrow> PosInf
           | NegInf \<Rightarrow> NegInf | NaN \<Rightarrow> NaN)
      | NegInf \<Rightarrow>
          (case y of Finite b \<Rightarrow> signed_inf (- b) | PosInf \<Rightarrow> NegInf
           | NegInf \<Rightarrow> PosInf | NaN \<Rightarrow> NaN)
      | NaN \<Rightarrow> NaN)"

text \<open>Division: a finite number over zero is an infinity, \<open>0 / 0\<close> and \<open>inf / inf\<close> are NaN.\<close>

definition f_div :: "float64 \<Rightarrow> float64 \<Rightarrow> float64" where
  "f_div x y =
     (case x of
        Finite a \<Rightarrow>
          (case y of Finite b \<Rightarrow> (if b = 0 then signed_inf a else to_float64 (a / b))
           | PosInf \<Rightarrow> Finite 0 | NegInf \<Rightarrow> Finite 0 | NaN \<Rightarrow> NaN)
      | PosInf \<Rightarrow> (case y of Finite b \<Rightarrow> (if b < 0 then NegInf else PosInf) | other \<Rightarrow> NaN)
      | NegInf \<Rightarrow> (case y of Finite b \<Rightarrow> (if b < 0 then PosInf else NegInf) | other \<Rightarrow> NaN)
      | NaN \<Rightarrow> NaN)"

definition f_exp :: "float64 \<Rightarrow> float64" where
  "f_exp x =
     (case x of Finite a \<Rightarrow> to_float64 (exp a) | PosInf \<Rightarrow> PosInf
      | NegInf \<Rightarrow> Finite 0 | NaN \<Rightarrow> NaN)"

text \<open>\<^verbatim>\<open>x == y\<close>: NaN equals nothing, itself included.\<close>

definition f_eq :: "float64 \<Rightarrow> float64 \<Rightarrow> bool" where
  "f_eq x y = (case x of NaN \<Rightarrow> False | other \<Rightarrow> x = y)"

text \<open>A sum of doubles, added from the left, starting from 0.\<close>

definition f_sum :: "float64 list \<Rightarrow> float64" where
  "f_sum xs = foldl f_add (Finite 0) xs"

section \<open>The notebook's routines over doubles\<close>

text \<open>
  The same arrays, numpy operations and notebook functions as above, definition for
  definition, with the entries and the arithmetic of \<open>float64\<close>.
\<close>

record ndarray64 =
  width64 :: nat
  rowlist64 :: "float64 list list"

definition shape0_64 :: "ndarray64 \<Rightarrow> nat" where
  "shape0_64 a = length (rowlist64 a)"

definition is_2d64 :: "ndarray64 \<Rightarrow> bool" where
  "is_2d64 a = list_all (\<lambda>r. length r = width64 a) (rowlist64 a)"

definition elem64 :: "ndarray64 \<Rightarrow> nat \<Rightarrow> nat \<Rightarrow> float64" where
  "elem64 a i j = rowlist64 a ! i ! j"

definition tabulate64 :: "nat \<Rightarrow> nat \<Rightarrow> (nat \<Rightarrow> nat \<Rightarrow> float64) \<Rightarrow> ndarray64" where
  "tabulate64 r c f = \<lparr>width64 = c, rowlist64 = map (\<lambda>i. map (\<lambda>j. f i j) [0..<c]) [0..<r]\<rparr>"

definition transpose64 :: "ndarray64 \<Rightarrow> ndarray64" where
  "transpose64 a = tabulate64 (width64 a) (shape0_64 a) (\<lambda>i j. elem64 a j i)"

definition np_dot64 :: "ndarray64 \<Rightarrow> ndarray64 \<Rightarrow> error + ndarray64" where
  "np_dot64 a b =
     (if width64 a \<noteq> shape0_64 b then Inl ValueError
      else Inr (tabulate64 (shape0_64 a) (width64 b)
             (\<lambda>i j. f_sum (map (\<lambda>k. f_mul (elem64 a i k) (elem64 b k j)) [0..<width64 a]))))"

definition np_matmul64 :: "ndarray64 \<Rightarrow> ndarray64 \<Rightarrow> error + ndarray64" where
  "np_matmul64 a b = np_dot64 a b"

definition np_exp64 :: "ndarray64 \<Rightarrow> ndarray64" where
  "np_exp64 a = \<lparr>width64 = width64 a, rowlist64 = map (map f_exp) (rowlist64 a)\<rparr>"

definition div_scalar64 :: "ndarray64 \<Rightarrow> float64 \<Rightarrow> ndarray64" where
  "div_scalar64 a s = \<lparr>width64 = width64 a, rowlist64 = map (map (\<lambda>v. f_div v s)) (rowlist64 a)\<rparr>"

definition np_sum64 :: "ndarray64 \<Rightarrow> int \<Rightarrow> error + float64 list" where
  "np_sum64 a axis =
     (if axis = 1 \<or> axis = -1 then Inr (map f_sum (rowlist64 a))
      else if axis = 0 \<or> axis = -2
        then Inr (map (\<lambda>j. f_sum (map (\<lambda>r. r ! j) (rowlist64 a))) [0..<width64 a])
      else Inl AxisError)"

definition expand_dims64 :: "float64 list \<Rightarrow> int \<Rightarrow> error + ndarray64" where
  "expand_dims64 v axis =
     (if axis = 1 \<or> axis = -1 then Inr \<lparr>width64 = 1, rowlist64 = map (\<lambda>x. [x]) v\<rparr>
      else if axis = 0 \<or> axis = -2 then Inr \<lparr>width64 = length v, rowlist64 = [v]\<rparr>
      else Inl AxisError)"

definition nd_div64 :: "ndarray64 \<Rightarrow> ndarray64 \<Rightarrow> error + ndarray64" where
  "nd_div64 a b =
     (let r1 = shape0_64 a; c1 = width64 a; r2 = shape0_64 b; c2 = width64 b in
      if (r1 = r2 \<or> r1 = 1 \<or> r2 = 1) \<and> (c1 = c2 \<or> c1 = 1 \<or> c2 = 1)
      then Inr (tabulate64 (if r1 = 1 then r2 else r1) (if c1 = 1 then c2 else c1)
             (\<lambda>i j. f_div (elem64 a (if r1 = 1 then 0 else i) (if c1 = 1 then 0 else j))
                        (elem64 b (if r2 = 1 then 0 else i) (if c2 = 1 then 0 else j))))
      else Inl ValueError)"

text \<open>The executed cell.\<close>

definition softmax64 :: "ndarray64 \<Rightarrow> int \<Rightarrow> error + ndarray64" where
  "softmax64 x axis =
     bind_res (np_sum64 (np_exp64 x) axis) (\<lambda>s.
     bind_res (expand_dims64 s 1) (\<lambda>d.
     nd_div64 (np_exp64 x) d))"

definition calculate_weights64 :: "ndarray64 \<Rightarrow> ndarray64 \<Rightarrow> error + ndarray64" where
  "calculate_weights64 queries keys =
     bind_res (np_dot64 queries (transpose64 keys)) (\<lambda>dot.
     bind_res (softmax64 dot 1) (\<lambda>weights.
     bind_res (np_sum64 weights 1) (\<lambda>row_sums.
       case row_sums of
         [] \<Rightarrow> Inl IndexError
       | s0 # _ \<Rightarrow> if f_eq s0 (Finite 1) then Inr weights else Inl AssertionError)))"

definition attention_qkv64 :: "ndarray64 \<Rightarrow> ndarray64 \<Rightarrow> ndarray64 \<Rightarrow> error + ndarray64" where
  "attention_qkv64 queries keys vals =
     bind_res (calculate_weights64 queries keys) (\<lambda>weights. np_dot64 weights vals)"

text \<open>The reference solution; \<^verbatim>\<open>np.sqrt(keys.shape[1])\<close> is the double of the square root.\<close>

definition softmax_sol64 :: "ndarray64 \<Rightarrow> int \<Rightarrow> error + ndarray64" where
  "softmax_sol64 x axis =
     (let y = np_exp64 x in
      bind_res (np_sum64 y axis) (\<lambda>s.
      bind_res (expand_dims64 s axis) (\<lambda>d.
      nd_div64 y d)))"

definition calculate_weights_sol64 :: "ndarray64 \<Rightarrow> ndarray64 \<Rightarrow> error + ndarray64" where
  "calculate_weights_sol64 queries keys =
     bind_res (np_matmul64 queries (transpose64 keys)) (\<lambda>product.
     let dot = div_scalar64 product (to_float64 (sqrt (real (width64 keys)))) in
     bind_res (softmax_sol64 dot 1) (\<lambda>weights.
     bind_res (np_sum64 weights 1) (\<lambda>row_sums.
       case row_sums of
         [] \<Rightarrow> Inl IndexError
       | s0 # _ \<Rightarrow> if f_eq s0 (Finite 1) then Inr weights else Inl AssertionError)))"

definition attention_qkv_sol64 :: "ndarray64 \<Rightarrow> ndarray64 \<Rightarrow> ndarray64 \<Rightarrow> error + ndarray64" where
  "attention_qkv_sol64 queries keys vals =
     bind_res (calculate_weights_sol64 queries keys) (\<lambda>weights. np_matmul64 weights vals)"

section \<open>Tokenizer and embedding lookup\<close>

text \<open>
  \<^verbatim>\<open>str.lower\<close> on the letters A to Z; a sentence is a list of characters. (Python lowers
  every cased Unicode letter; the model covers ASCII sentences.)
\<close>

definition lower_char :: "char \<Rightarrow> char" where
  "lower_char c =
     (let n = (of_char c :: nat) in if 65 \<le> n \<and> n \<le> 90 then char_of (n + 32) else c)"

definition lower :: "string \<Rightarrow> string" where
  "lower s = map lower_char s"

text \<open>\<^verbatim>\<open>s.split(" ")\<close>: every single space separates; the empty string gives one empty word.\<close>

fun split_sp :: "string \<Rightarrow> string list" where
  "split_sp [] = [[]]"
| "split_sp (c # cs) =
     (if c = CHR '' '' then [] # split_sp cs
      else (case split_sp cs of [] \<Rightarrow> [[c]] | w # ws \<Rightarrow> (c # w) # ws))"

text \<open>\<^verbatim>\<open>token_mapping[word]\<close>: a dictionary lookup raises KeyError for a missing key.\<close>

definition dict_getitem :: "(string \<rightharpoonup> int) \<Rightarrow> string \<Rightarrow> error + int" where
  "dict_getitem d key = (case d key of None \<Rightarrow> Inl KeyError | Some v \<Rightarrow> Inr v)"

text \<open>
  The loop of \<open>tokenize\<close>: the token of the word is appended, and -1 where the lookup raises
  KeyError (\<^verbatim>\<open>except KeyError\<close>); any other exception would leave the function.
\<close>

fun tokenize_loop :: "string list \<Rightarrow> (string \<rightharpoonup> int) \<Rightarrow> int list \<Rightarrow> error + int list" where
  "tokenize_loop [] token_mapping tokenized = Inr tokenized"
| "tokenize_loop (word # rest) token_mapping tokenized =
     (case dict_getitem token_mapping word of
        Inr t \<Rightarrow> tokenize_loop rest token_mapping (tokenized @ [t])
      | Inl KeyError \<Rightarrow> tokenize_loop rest token_mapping (tokenized @ [- 1])
      | Inl e \<Rightarrow> Inl e)"

definition tokenize :: "string \<Rightarrow> (string \<rightharpoonup> int) \<Rightarrow> error + int list" where
  "tokenize sentence token_mapping = tokenize_loop (split_sp (lower sentence)) token_mapping []"

text \<open>
  \<^verbatim>\<open>embeddings[token]\<close> with an integer: a negative index counts from the last row, and an
  index outside \<open>-n .. n-1\<close> raises IndexError.
\<close>

definition getitem :: "ndarray \<Rightarrow> int \<Rightarrow> error + real list" where
  "getitem a t =
     (let n = int (shape0 a); j = (if t < 0 then n + t else t)
      in if 0 \<le> j \<and> j < n then Inr (rowlist a ! nat j) else Inl IndexError)"

text \<open>
  The notebook's \<^verbatim>\<open>embed\<close> (here \<open>embed_tokens\<close>, as \<open>embed\<close> is a constant of HOL): its
  loop over \<^verbatim>\<open>enumerate(tokens)\<close> writes row \<open>i\<close> of \<open>output\<close>.
\<close>

fun embed_loop :: "(nat \<times> int) list \<Rightarrow> ndarray \<Rightarrow> real list list \<Rightarrow> error + real list list" where
  "embed_loop [] embeddings output = Inr output"
| "embed_loop ((i, token) # rest) embeddings output =
     (if token = - 1
      then embed_loop rest embeddings (output[i := replicate (width embeddings) 0])
      else (case getitem embeddings token of
              Inl e \<Rightarrow> Inl e
            | Inr row \<Rightarrow> embed_loop rest embeddings (output[i := row])))"

definition embed_tokens :: "int list \<Rightarrow> ndarray \<Rightarrow> error + ndarray" where
  "embed_tokens tokens embeddings =
     (let embed_size = width embeddings;
          output = replicate (length tokens) (replicate embed_size 0)
      in case embed_loop (enumerate 0 tokens) embeddings output of
           Inl e \<Rightarrow> Inl e
         | Inr out \<Rightarrow> Inr \<lparr>width = embed_size, rowlist = out\<rparr>)"

section \<open>Vocabulary of the properties\<close>

text \<open>Entry \<open>(i, j)\<close> of \<open>queries \<cdot> keys\<^sup>T\<close>: the dot product of query row \<open>i\<close> and key row \<open>j\<close>.\<close>

definition score :: "ndarray \<Rightarrow> ndarray \<Rightarrow> nat \<Rightarrow> nat \<Rightarrow> real" where
  "score q k i j = sum_list (map (\<lambda>c. elem q i c * elem k j c) [0..<width q])"

text \<open>The row-wise softmax of an \<open>m \<times> n\<close> table of scores, as a formula.\<close>

definition softmax_rows :: "nat \<Rightarrow> nat \<Rightarrow> (nat \<Rightarrow> nat \<Rightarrow> real) \<Rightarrow> ndarray" where
  "softmax_rows m n s =
     tabulate m n (\<lambda>i j. exp (s i j) / sum_list (map (\<lambda>c. exp (s i c)) [0..<n]))"

text \<open>
  The weights as the specification words them: the product of the queries and the transposed
  keys, every score divided by the square root of the feature dimension, then the row-wise
  softmax.
\<close>

definition spec_weights :: "ndarray \<Rightarrow> ndarray \<Rightarrow> ndarray" where
  "spec_weights q k =
     softmax_rows (shape0 q) (shape0 k) (\<lambda>i j. score q k i j / sqrt (real (width k)))"

text \<open>A valid input pair: \<open>m \<times> d\<close> queries and \<open>n \<times> d\<close> keys with \<open>m, n, d \<ge> 1\<close>.\<close>

definition valid_qk :: "ndarray \<Rightarrow> ndarray \<Rightarrow> bool" where
  "valid_qk q k \<longleftrightarrow>
     is_2d q \<and> is_2d k \<and> width q = width k \<and> 1 \<le> width q \<and> 1 \<le> shape0 q \<and> 1 \<le> shape0 k"

text \<open>\<open>c \<cdot> a\<close>: every entry multiplied by the constant \<open>c\<close>.\<close>

definition nd_scale :: "real \<Rightarrow> ndarray \<Rightarrow> ndarray" where
  "nd_scale c a = \<lparr>width = width a, rowlist = map (map (\<lambda>v. c * v)) (rowlist a)\<rparr>"

text \<open>The token \<open>tokenize\<close> appends for one word: its index, or -1 for a word without one.\<close>

definition token_of :: "(string \<rightharpoonup> int) \<Rightarrow> string \<Rightarrow> int" where
  "token_of token_mapping word = (case token_mapping word of Some t \<Rightarrow> t | None \<Rightarrow> - 1)"

text \<open>
  The row \<open>embed_tokens\<close> writes for one token whose lookup does not raise: zeros for -1, and
  otherwise the row numpy's indexing selects, counting a negative index from the last row.
\<close>

definition embed_row :: "ndarray \<Rightarrow> int \<Rightarrow> real list" where
  "embed_row E t =
     (if t = - 1 then replicate (width E) 0
      else rowlist E ! nat (if t < 0 then int (shape0 E) + t else t))"

text \<open>The same vocabulary over doubles: the scores, the row-wise softmax as a formula.\<close>

definition score64 :: "ndarray64 \<Rightarrow> ndarray64 \<Rightarrow> nat \<Rightarrow> nat \<Rightarrow> float64" where
  "score64 q k i j = f_sum (map (\<lambda>c. f_mul (elem64 q i c) (elem64 k j c)) [0..<width64 q])"

definition softmax_rows64 :: "nat \<Rightarrow> nat \<Rightarrow> (nat \<Rightarrow> nat \<Rightarrow> float64) \<Rightarrow> ndarray64" where
  "softmax_rows64 m n s =
     tabulate64 m n (\<lambda>i j. f_div (f_exp (s i j)) (f_sum (map (\<lambda>c. f_exp (s i c)) [0..<n])))"

text \<open>
  The end of \<open>calculate_weights\<close> as a function of the weights: the assertion on the first row
  sum, then the return.
\<close>

definition checked64 :: "ndarray64 \<Rightarrow> error + ndarray64" where
  "checked64 weights =
     (case map f_sum (rowlist64 weights) of
        [] \<Rightarrow> Inl IndexError
      | s0 # _ \<Rightarrow> if f_eq s0 (Finite 1) then Inr weights else Inl AssertionError)"

text \<open>Valid inputs over doubles: the shapes as before, and every entry a finite number.\<close>

definition is_finite :: "float64 \<Rightarrow> bool" where
  "is_finite x = (case x of Finite a \<Rightarrow> True | other \<Rightarrow> False)"

definition valid_qk64 :: "ndarray64 \<Rightarrow> ndarray64 \<Rightarrow> bool" where
  "valid_qk64 q k \<longleftrightarrow>
     is_2d64 q \<and> is_2d64 k \<and> width64 q = width64 k \<and> 1 \<le> width64 q \<and>
     1 \<le> shape0_64 q \<and> 1 \<le> shape0_64 k \<and>
     list_all (list_all is_finite) (rowlist64 q) \<and> list_all (list_all is_finite) (rowlist64 k)"

definition valid_qkv64 :: "ndarray64 \<Rightarrow> ndarray64 \<Rightarrow> ndarray64 \<Rightarrow> bool" where
  "valid_qkv64 q k v \<longleftrightarrow>
     valid_qk64 q k \<and> is_2d64 v \<and> shape0_64 v = shape0_64 k \<and>
     list_all (list_all is_finite) (rowlist64 v)"

section \<open>Arrays built from a function\<close>

lemma shape0_tabulate: "shape0 (tabulate r c f) = r"
  by (simp add: shape0_def tabulate_def)

lemma width_tabulate: "width (tabulate r c f) = c"
  by (simp add: tabulate_def)

lemma is_2d_tabulate: "is_2d (tabulate r c f)"
  by (simp add: is_2d_def tabulate_def list_all_iff)

lemma row_tabulate: "i < r \<Longrightarrow> rowlist (tabulate r c f) ! i = map (f i) [0..<c]"
  by (simp add: tabulate_def)

lemma elem_tabulate: "i < r \<Longrightarrow> j < c \<Longrightarrow> elem (tabulate r c f) i j = f i j"
  by (simp add: elem_def tabulate_def)

lemma tabulate_cong:
  "(\<And>i j. i < r \<Longrightarrow> j < c \<Longrightarrow> f i j = g i j) \<Longrightarrow> tabulate r c f = tabulate r c g"
  by (simp add: tabulate_def)

lemma row_as_map:
  "is_2d a \<Longrightarrow> i < shape0 a \<Longrightarrow> rowlist a ! i = map (elem a i) [0..<width a]"
  by (auto simp: is_2d_def shape0_def elem_def list_all_iff intro!: nth_equalityI)

section \<open>Sums of exponentials\<close>

lemma sum_list_div: "sum_list (map (\<lambda>j. f j / (c::real)) xs) = sum_list (map f xs) / c"
  by (induction xs) (simp_all add: add_divide_distrib)

lemma sum_list_exp_nonneg: "0 \<le> sum_list (map (\<lambda>j. exp (f j :: real)) xs)"
  by (rule sum_list_nonneg) auto

lemma sum_list_exp_pos: "xs \<noteq> [] \<Longrightarrow> 0 < sum_list (map (\<lambda>j. exp (f j :: real)) xs)"
proof (cases xs)
  case Nil
  assume "xs \<noteq> []"
  with Nil show ?thesis by simp
next
  case (Cons a ys)
  have "0 < exp (f a) + sum_list (map (\<lambda>j. exp (f j)) ys)"
    by (rule add_pos_nonneg) (simp_all add: sum_list_exp_nonneg)
  with Cons show ?thesis by simp
qed

section \<open>What \<open>softmax\<close> computes along axis 1\<close>

lemma softmax_axis1:
  assumes "is_2d x"
  shows "softmax x 1 = Inr (tabulate (shape0 x) (width x)
           (\<lambda>i j. exp (elem x i j) / sum_list (map (\<lambda>c. exp (elem x i c)) [0..<width x])))"
proof -
  define y where "y = np_exp x"
  define d where "d = \<lparr>width = 1, rowlist = map (\<lambda>v. [v]) (map sum_list (rowlist y))\<rparr>"
  have e: "\<And>i j. i < shape0 x \<Longrightarrow> j < width x \<Longrightarrow> elem y i j = exp (elem x i j)"
    using assms by (simp add: y_def np_exp_def elem_def shape0_def is_2d_def list_all_iff)
  have s: "\<And>i. i < shape0 x \<Longrightarrow>
      elem d i 0 = sum_list (map (\<lambda>c. exp (elem x i c)) [0..<width x])"
    using row_as_map[OF assms]
    by (simp add: d_def y_def np_exp_def elem_def shape0_def comp_def)
  have sh: "shape0 y = shape0 x" "width y = width x" "shape0 d = shape0 x" "width d = 1"
    by (simp_all add: d_def y_def np_exp_def shape0_def)
  have "softmax x 1 = nd_div y d"
    by (simp add: softmax_def np_sum_def expand_dims_def bind_res_def d_def y_def)
  also have "\<dots> = Inr (tabulate (shape0 x) (width x)
           (\<lambda>i j. exp (elem x i j) / sum_list (map (\<lambda>c. exp (elem x i c)) [0..<width x])))"
    unfolding nd_div_def Let_def sh
    by (auto intro!: tabulate_cong simp: e s)
  finally show ?thesis .
qed

lemma softmax_sol_axis1: "softmax_sol x 1 = softmax x 1"
  by (simp add: softmax_sol_def softmax_def Let_def)

lemma softmax_tabulate: "softmax (tabulate m n s) 1 = Inr (softmax_rows m n s)"
proof -
  let ?T = "tabulate m n s"
  have "tabulate m n (\<lambda>i j. exp (elem ?T i j) / sum_list (map (\<lambda>c. exp (elem ?T i c)) [0..<n]))
      = softmax_rows m n s"
    unfolding softmax_rows_def
  proof (rule tabulate_cong)
    fix i j
    assume ij: "i < m" "j < n"
    have eq: "map (\<lambda>c. exp (elem ?T i c)) [0..<n] = map (\<lambda>c. exp (s i c)) [0..<n]"
      using ij by (simp add: elem_tabulate)
    show "exp (elem ?T i j) / sum_list (map (\<lambda>c. exp (elem ?T i c)) [0..<n])
        = exp (s i j) / sum_list (map (\<lambda>c. exp (s i c)) [0..<n])"
      unfolding eq using ij by (simp add: elem_tabulate)
  qed
  then show ?thesis
    by (simp add: softmax_axis1[OF is_2d_tabulate] shape0_tabulate width_tabulate)
qed

lemma row_sum_softmax_rows:
  assumes "i < m" "0 < n"
  shows "sum_list (rowlist (softmax_rows m n s) ! i) = 1"
proof -
  have pos: "0 < sum_list (map (\<lambda>c. exp (s i c)) [0..<n])"
    using assms by (intro sum_list_exp_pos) simp
  show ?thesis
    using assms pos by (simp add: softmax_rows_def row_tabulate sum_list_div)
qed

section \<open>What \<open>calculate_weights\<close> computes\<close>

lemma dot_transpose:
  "np_dot q (transpose_nd k) =
     (if width q = width k then Inr (tabulate (shape0 q) (shape0 k) (score q k))
      else Inl ValueError)"
  by (auto simp: np_dot_def transpose_nd_def shape0_tabulate width_tabulate score_def
      elem_tabulate intro!: tabulate_cong arg_cong[where f=sum_list])

lemma assert_passes:
  assumes "0 < m" "0 < n"
  shows "np_sum (softmax_rows m n s) 1 = Inr (1 # replicate (m - 1) 1)"
proof -
  have len: "length (rowlist (softmax_rows m n s)) = m"
    by (simp add: softmax_rows_def tabulate_def)
  have "map sum_list (rowlist (softmax_rows m n s)) = replicate m 1"
    by (rule nth_equalityI) (simp_all add: len row_sum_softmax_rows assms)
  with assms have "map sum_list (rowlist (softmax_rows m n s)) = 1 # replicate (m - 1) 1"
    by (cases m) simp_all
  then show ?thesis by (simp add: np_sum_def)
qed

lemma calculate_weights_value:
  assumes "width q = width k" "0 < shape0 q" "0 < shape0 k"
  shows "calculate_weights q k = Inr (softmax_rows (shape0 q) (shape0 k) (score q k))"
  using assms
  by (simp add: calculate_weights_def dot_transpose bind_res_def softmax_tabulate assert_passes)

lemma div_scalar_tabulate: "div_scalar (tabulate m n f) c = tabulate m n (\<lambda>i j. f i j / c)"
  by (simp add: div_scalar_def tabulate_def comp_def)

lemma calculate_weights_sol_value:
  assumes "width q = width k" "0 < shape0 q" "0 < shape0 k" "0 < width k"
  shows "calculate_weights_sol q k = Inr (spec_weights q k)"
  using assms
  by (simp add: calculate_weights_sol_def np_matmul_def dot_transpose bind_res_def Let_def
      div_scalar_tabulate softmax_sol_axis1 softmax_tabulate assert_passes spec_weights_def)

section \<open>Small tables, written out\<close>

lemma upt_2: "[0..<2] = [0, 1]"
  by (simp add: upt_conv_Cons)

lemma upt_4: "[0..<4] = [0, 1, 2, 3]"
  by (simp add: upt_conv_Cons)

lemma softmax_rows_1_2:
  "softmax_rows (Suc 0) 2 s = \<lparr>width = 2, rowlist =
     [[exp (s 0 0) / (exp (s 0 0) + exp (s 0 (Suc 0))),
       exp (s 0 (Suc 0)) / (exp (s 0 0) + exp (s 0 (Suc 0)))]]\<rparr>"
  by (simp add: softmax_rows_def tabulate_def upt_2)

lemma score_1col: "width q = Suc 0 \<Longrightarrow> score q k i j = elem q i 0 * elem k j 0"
  by (simp add: score_def)

lemma logistic_inj:
  assumes "0 < a" "0 < b" "a / (a + c) = b / (b + c)" "0 < (c::real)"
  shows "a = b"
proof -
  from assms have "a * (b + c) = b * (a + c)"
    by (simp add: field_simps)
  then have "a * c = b * c" by (simp add: algebra_simps)
  with assms(4) show ?thesis by simp
qed

lemma exp_10000_large: "(2::real) ^ 1024 < exp 10000"
proof -
  have two: "(2::real) \<le> exp 1"
    using exp_ge_add_one_self[of "1::real"] by simp
  have "(2::real) ^ 1024 \<le> exp 1 ^ 1024"
    by (rule power_mono[OF two]) simp
  also have "exp (1::real) ^ 1024 = exp (of_nat 1024 * 1)"
    by (rule exp_of_nat_mult[symmetric])
  also have "\<dots> < exp 10000"
    by (simp only: exp_less_cancel_iff)
  finally show ?thesis .
qed

section \<open>The failing paths of \<open>calculate_weights\<close>\<close>

lemma calculate_weights_mismatch:
  "width q \<noteq> width k \<Longrightarrow> calculate_weights q k = Inl ValueError"
  by (simp add: calculate_weights_def dot_transpose bind_res_def)

lemma calculate_weights_sol_mismatch:
  "width q \<noteq> width k \<Longrightarrow> calculate_weights_sol q k = Inl ValueError"
  by (simp add: calculate_weights_sol_def np_matmul_def dot_transpose bind_res_def)

lemma row_sums_no_rows: "np_sum (softmax_rows 0 n s) 1 = Inr []"
  by (simp add: np_sum_def softmax_rows_def tabulate_def)

lemma row_sums_no_cols: "np_sum (softmax_rows (Suc m) 0 s) 1 = Inr (0 # replicate m 0)"
proof -
  have "map sum_list (rowlist (softmax_rows (Suc m) 0 s)) = 0 # replicate m 0"
    by (rule nth_equalityI) (simp_all add: softmax_rows_def tabulate_def nth_Cons' del: upt_Suc)
  then show ?thesis by (simp add: np_sum_def)
qed

lemma calculate_weights_no_queries:
  "width q = width k \<Longrightarrow> shape0 q = 0 \<Longrightarrow> calculate_weights q k = Inl IndexError"
  by (simp add: calculate_weights_def dot_transpose bind_res_def softmax_tabulate
      row_sums_no_rows)

lemma calculate_weights_sol_no_queries:
  "width q = width k \<Longrightarrow> shape0 q = 0 \<Longrightarrow> calculate_weights_sol q k = Inl IndexError"
  by (simp add: calculate_weights_sol_def np_matmul_def dot_transpose bind_res_def Let_def
      div_scalar_tabulate softmax_sol_axis1 softmax_tabulate row_sums_no_rows)

lemma calculate_weights_no_keys:
  "width q = width k \<Longrightarrow> 0 < shape0 q \<Longrightarrow> shape0 k = 0 \<Longrightarrow>
     calculate_weights q k = Inl AssertionError"
  by (cases "shape0 q") (simp_all add: calculate_weights_def dot_transpose bind_res_def
      softmax_tabulate row_sums_no_cols)

lemma calculate_weights_sol_no_keys:
  "width q = width k \<Longrightarrow> 0 < shape0 q \<Longrightarrow> shape0 k = 0 \<Longrightarrow>
     calculate_weights_sol q k = Inl AssertionError"
  by (cases "shape0 q") (simp_all add: calculate_weights_sol_def np_matmul_def dot_transpose
      bind_res_def Let_def div_scalar_tabulate softmax_sol_axis1 softmax_tabulate
      row_sums_no_cols)

section \<open>What \<open>tokenize\<close> and \<open>embed_tokens\<close> compute\<close>

lemma tokenize_loop_map: "tokenize_loop ws m acc = Inr (acc @ map (token_of m) ws)"
  by (induction ws arbitrary: acc)
    (simp_all add: dict_getitem_def token_of_def split: option.splits)

lemma tokenize_map: "tokenize s m = Inr (map (token_of m) (split_sp (lower s)))"
  by (simp add: tokenize_def tokenize_loop_map)

lemma lower_char_idem: "lower_char (lower_char c) = lower_char c"
  by (auto simp: lower_char_def Let_def)

lemma lower_idem: "lower (lower s) = lower s"
  by (simp add: lower_def lower_char_idem)

lemma embed_loop_ok:
  assumes "\<forall>t\<in>set ts. t = - 1 \<or> (- int (shape0 E) \<le> t \<and> t < int (shape0 E))"
    and "length out = n + length ts"
  shows "embed_loop (enumerate n ts) E out = Inr (take n out @ map (embed_row E) ts)"
  using assms
proof (induction ts arbitrary: n out)
  case Nil
  then show ?case by simp
next
  case (Cons t ts)
  have len: "length (out[n := embed_row E t]) = Suc n + length ts"
    using Cons.prems(2) by simp
  have ok: "\<forall>t\<in>set ts. t = - 1 \<or> (- int (shape0 E) \<le> t \<and> t < int (shape0 E))"
    using Cons.prems(1) by simp
  have tk: "take (Suc n) (out[n := embed_row E t]) = take n out @ [embed_row E t]"
    using Cons.prems(2) by (simp add: take_Suc_conv_app_nth)
  have step: "embed_loop (enumerate n (t # ts)) E out
      = embed_loop (enumerate (Suc n) ts) E (out[n := embed_row E t])"
    using Cons.prems(1) by (auto simp: getitem_def Let_def embed_row_def)
  show ?case
    unfolding step Cons.IH[OF ok len] tk by simp
qed

lemma embed_loop_err:
  assumes "\<exists>t\<in>set ts. t \<noteq> - 1 \<and> (t < - int (shape0 E) \<or> int (shape0 E) \<le> t)"
  shows "embed_loop (enumerate n ts) E out = Inl IndexError"
  using assms
proof (induction ts arbitrary: n out)
  case Nil
  then show ?case by simp
next
  case (Cons t ts)
  show ?case
  proof (cases "t \<noteq> - 1 \<and> (t < - int (shape0 E) \<or> int (shape0 E) \<le> t)")
    case True
    then show ?thesis by (auto simp: getitem_def Let_def)
  next
    case False
    with Cons.prems
    have rest: "\<exists>t\<in>set ts. t \<noteq> - 1 \<and> (t < - int (shape0 E) \<or> int (shape0 E) \<le> t)"
      by auto
    show ?thesis
      using False Cons.IH[OF rest] by (auto simp: getitem_def Let_def)
  qed
qed

lemma embed_ok:
  assumes "\<forall>t\<in>set ts. t = - 1 \<or> (- int (shape0 E) \<le> t \<and> t < int (shape0 E))"
  shows "embed_tokens ts E = Inr \<lparr>width = width E, rowlist = map (embed_row E) ts\<rparr>"
  using embed_loop_ok[OF assms, of "replicate (length ts) (replicate (width E) 0)" 0]
  by (simp add: embed_tokens_def Let_def)

lemma embed_err:
  assumes "\<exists>t\<in>set ts. t \<noteq> - 1 \<and> (t < - int (shape0 E) \<or> int (shape0 E) \<le> t)"
  shows "embed_tokens ts E = Inl IndexError"
  using embed_loop_err[OF assms] by (simp add: embed_tokens_def Let_def)

lemma embed_returns_iff:
  "(\<exists>out. embed_tokens ts E = Inr out) \<longleftrightarrow>
     (\<forall>t\<in>set ts. t = - 1 \<or> (- int (shape0 E) \<le> t \<and> t < int (shape0 E)))"
proof
  assume "\<exists>out. embed_tokens ts E = Inr out"
  then show "\<forall>t\<in>set ts. t = - 1 \<or> (- int (shape0 E) \<le> t \<and> t < int (shape0 E))"
    using embed_err[of ts E] by fastforce
next
  assume "\<forall>t\<in>set ts. t = - 1 \<or> (- int (shape0 E) \<le> t \<and> t < int (shape0 E))"
  then show "\<exists>out. embed_tokens ts E = Inr out"
    by (simp add: embed_ok)
qed

section \<open>Arithmetic of doubles at the numbers used below\<close>

lemma to_float64_0: "to_float64 0 = Finite 0"
  by (simp add: to_float64_def overflow_threshold_def underflow_threshold_def)

lemma small_numbers:
  "to_float64 1 = Finite 1" "to_float64 2 = Finite 2" "to_float64 (1/2) = Finite (1/2)"
  "to_float64 10000 = Finite 10000" "to_float64 900 = Finite 900" "to_float64 (3/2) = Finite (3/2)"
  by (simp_all add: to_float64_def overflow_threshold_def underflow_threshold_def)

lemma exp_3_ge_16: "(16::real) \<le> exp 3"
proof -
  have step: "(35/32::real) \<le> exp (3/32)"
    using exp_ge_add_one_self[of "3/32::real"] by simp
  have "(16::real) \<le> (35/32) ^ 32"
    by (simp add: power_divide)
  also have "(35/32::real) ^ 32 \<le> exp (3/32) ^ 32"
    by (rule power_mono[OF step]) simp
  also have "exp (3/32::real) ^ 32 = exp (of_nat 32 * (3/32))"
    by (rule exp_of_nat_mult[symmetric])
  also have "\<dots> = exp 3" by simp
  finally show ?thesis .
qed

lemma exp_900_large: "(2::real) ^ 1024 < exp 900"
proof -
  have "(2::real) ^ 1024 < 16 ^ 300"
    by simp
  also have "(16::real) ^ 300 \<le> exp 3 ^ 300"
    by (rule power_mono[OF exp_3_ge_16]) simp
  also have "exp (3::real) ^ 300 = exp (of_nat 300 * 3)"
    by (rule exp_of_nat_mult[symmetric])
  also have "\<dots> = exp 900" by simp
  finally show ?thesis .
qed

lemma exp_overflows:
  "to_float64 (exp 10000) = PosInf" "to_float64 (exp 900) = PosInf"
proof -
  have "overflow_threshold < 2 ^ 1024" by (simp add: overflow_threshold_def)
  then show "to_float64 (exp 10000) = PosInf" "to_float64 (exp 900) = PosInf"
    using exp_10000_large exp_900_large by (simp_all add: to_float64_def)
qed

lemmas f_ops = f_add_def f_mul_def f_div_def f_exp_def f_sum_def f_eq_def signed_inf_def

section \<open>What the routines over doubles compute\<close>

lemma shape0_tabulate64: "shape0_64 (tabulate64 r c f) = r"
  by (simp add: shape0_64_def tabulate64_def)

lemma width_tabulate64: "width64 (tabulate64 r c f) = c"
  by (simp add: tabulate64_def)

lemma is_2d_tabulate64: "is_2d64 (tabulate64 r c f)"
  by (simp add: is_2d64_def tabulate64_def list_all_iff)

lemma elem_tabulate64: "i < r \<Longrightarrow> j < c \<Longrightarrow> elem64 (tabulate64 r c f) i j = f i j"
  by (simp add: elem64_def tabulate64_def)

lemma tabulate64_cong:
  "(\<And>i j. i < r \<Longrightarrow> j < c \<Longrightarrow> f i j = g i j) \<Longrightarrow> tabulate64 r c f = tabulate64 r c g"
  by (simp add: tabulate64_def)

lemma row_as_map64:
  "is_2d64 a \<Longrightarrow> i < shape0_64 a \<Longrightarrow> rowlist64 a ! i = map (elem64 a i) [0..<width64 a]"
  by (auto simp: is_2d64_def shape0_64_def elem64_def list_all_iff intro!: nth_equalityI)

lemma softmax64_axis1:
  assumes "is_2d64 x"
  shows "softmax64 x 1 = Inr (tabulate64 (shape0_64 x) (width64 x)
           (\<lambda>i j. f_div (f_exp (elem64 x i j))
                     (f_sum (map (\<lambda>c. f_exp (elem64 x i c)) [0..<width64 x]))))"
proof -
  define y where "y = np_exp64 x"
  define d where "d = \<lparr>width64 = 1, rowlist64 = map (\<lambda>v. [v]) (map f_sum (rowlist64 y))\<rparr>"
  have e: "\<And>i j. i < shape0_64 x \<Longrightarrow> j < width64 x \<Longrightarrow> elem64 y i j = f_exp (elem64 x i j)"
    using assms
    by (simp add: y_def np_exp64_def elem64_def shape0_64_def is_2d64_def list_all_iff)
  have s: "\<And>i. i < shape0_64 x \<Longrightarrow>
      elem64 d i 0 = f_sum (map (\<lambda>c. f_exp (elem64 x i c)) [0..<width64 x])"
    using row_as_map64[OF assms]
    by (simp add: d_def y_def np_exp64_def elem64_def shape0_64_def comp_def)
  have sh: "shape0_64 y = shape0_64 x" "width64 y = width64 x" "shape0_64 d = shape0_64 x"
    "width64 d = 1"
    by (simp_all add: d_def y_def np_exp64_def shape0_64_def)
  have "softmax64 x 1 = nd_div64 y d"
    by (simp add: softmax64_def np_sum64_def expand_dims64_def bind_res_def d_def y_def)
  also have "\<dots> = Inr (tabulate64 (shape0_64 x) (width64 x)
           (\<lambda>i j. f_div (f_exp (elem64 x i j))
                     (f_sum (map (\<lambda>c. f_exp (elem64 x i c)) [0..<width64 x]))))"
    unfolding nd_div64_def Let_def sh
    by (auto intro!: tabulate64_cong simp: e s)
  finally show ?thesis .
qed

lemma softmax_sol64_axis1: "softmax_sol64 x 1 = softmax64 x 1"
  by (simp add: softmax_sol64_def softmax64_def Let_def)

lemma softmax64_tabulate: "softmax64 (tabulate64 m n s) 1 = Inr (softmax_rows64 m n s)"
proof -
  let ?T = "tabulate64 m n s"
  have "tabulate64 m n (\<lambda>i j. f_div (f_exp (elem64 ?T i j))
                          (f_sum (map (\<lambda>c. f_exp (elem64 ?T i c)) [0..<n])))
      = softmax_rows64 m n s"
    unfolding softmax_rows64_def
  proof (rule tabulate64_cong)
    fix i j
    assume ij: "i < m" "j < n"
    have eq: "map (\<lambda>c. f_exp (elem64 ?T i c)) [0..<n] = map (\<lambda>c. f_exp (s i c)) [0..<n]"
      using ij by (simp add: elem_tabulate64)
    show "f_div (f_exp (elem64 ?T i j)) (f_sum (map (\<lambda>c. f_exp (elem64 ?T i c)) [0..<n]))
        = f_div (f_exp (s i j)) (f_sum (map (\<lambda>c. f_exp (s i c)) [0..<n]))"
      unfolding eq using ij by (simp add: elem_tabulate64)
  qed
  then show ?thesis
    by (simp add: softmax64_axis1[OF is_2d_tabulate64] shape0_tabulate64 width_tabulate64)
qed

lemma dot_transpose64:
  "np_dot64 q (transpose64 k) =
     (if width64 q = width64 k then Inr (tabulate64 (shape0_64 q) (shape0_64 k) (score64 q k))
      else Inl ValueError)"
  by (auto simp: np_dot64_def transpose64_def shape0_tabulate64 width_tabulate64 score64_def
      elem_tabulate64 intro!: tabulate64_cong arg_cong[where f=f_sum])

lemma calculate_weights64_value:
  assumes "width64 q = width64 k"
  shows "calculate_weights64 q k
     = checked64 (softmax_rows64 (shape0_64 q) (shape0_64 k) (score64 q k))"
  using assms
  by (simp add: calculate_weights64_def dot_transpose64 bind_res_def softmax64_tabulate
      np_sum64_def checked64_def)

lemma div_scalar64_tabulate:
  "div_scalar64 (tabulate64 m n f) c = tabulate64 m n (\<lambda>i j. f_div (f i j) c)"
  by (simp add: div_scalar64_def tabulate64_def comp_def)

lemma calculate_weights_sol64_value:
  assumes "width64 q = width64 k"
  shows "calculate_weights_sol64 q k
     = checked64 (softmax_rows64 (shape0_64 q) (shape0_64 k)
         (\<lambda>i j. f_div (score64 q k i j) (to_float64 (sqrt (real (width64 k))))))"
  using assms
  by (simp add: calculate_weights_sol64_def np_matmul64_def dot_transpose64 bind_res_def Let_def
      div_scalar64_tabulate softmax_sol64_axis1 softmax64_tabulate np_sum64_def checked64_def)

lemma softmax_rows64_1_1:
  "softmax_rows64 (Suc 0) (Suc 0) s =
     \<lparr>width64 = 1, rowlist64 = [[f_div (f_exp (s 0 0)) (f_sum [f_exp (s 0 0)])]]\<rparr>"
  by (simp add: softmax_rows64_def tabulate64_def)

lemma softmax_rows64_1_2:
  "softmax_rows64 (Suc 0) 2 s = \<lparr>width64 = 2, rowlist64 =
     [[f_div (f_exp (s 0 0)) (f_sum [f_exp (s 0 0), f_exp (s 0 (Suc 0))]),
       f_div (f_exp (s 0 (Suc 0))) (f_sum [f_exp (s 0 0), f_exp (s 0 (Suc 0))])]]\<rparr>"
  by (simp add: softmax_rows64_def tabulate64_def upt_2)

lemma softmax_rows64_2_2:
  "softmax_rows64 2 2 s = \<lparr>width64 = 2, rowlist64 =
     [[f_div (f_exp (s 0 0)) (f_sum [f_exp (s 0 0), f_exp (s 0 (Suc 0))]),
       f_div (f_exp (s 0 (Suc 0))) (f_sum [f_exp (s 0 0), f_exp (s 0 (Suc 0))])],
      [f_div (f_exp (s (Suc 0) 0)) (f_sum [f_exp (s (Suc 0) 0), f_exp (s (Suc 0) (Suc 0))]),
       f_div (f_exp (s (Suc 0) (Suc 0))) (f_sum [f_exp (s (Suc 0) 0), f_exp (s (Suc 0) (Suc 0))])]]\<rparr>"
  by (simp add: softmax_rows64_def tabulate64_def upt_2)

lemma score64_1col:
  "width64 q = Suc 0 \<Longrightarrow> score64 q k i j = f_add (Finite 0) (f_mul (elem64 q i 0) (elem64 k j 0))"
  by (simp add: score64_def f_sum_def)

text \<open>
  One query \<open>(100)\<close> against the keys \<open>(100)\<close> and \<open>(0)\<close>: the scores are 10000 and 0, the
  exponentials infinity and 1, their sum infinity, and the weights \<open>inf / inf\<close>, which is NaN,
  and \<open>1 / inf\<close>, which is 0. The first row sum is NaN and the assertion fails.
\<close>

lemma weights64_large_score:
  "np_dot64 \<lparr>width64 = 1, rowlist64 = [[Finite 100]]\<rparr>
      (transpose64 \<lparr>width64 = 1, rowlist64 = [[Finite 100], [Finite 0]]\<rparr>)
     = Inr \<lparr>width64 = 2, rowlist64 = [[Finite 10000, Finite 0]]\<rparr>"
  "np_exp64 \<lparr>width64 = 2, rowlist64 = [[Finite 10000, Finite 0]]\<rparr>
     = \<lparr>width64 = 2, rowlist64 = [[PosInf, Finite 1]]\<rparr>"
  "softmax64 \<lparr>width64 = 2, rowlist64 = [[Finite 10000, Finite 0]]\<rparr> 1
     = Inr \<lparr>width64 = 2, rowlist64 = [[NaN, Finite 0]]\<rparr>"
  "calculate_weights64 \<lparr>width64 = 1, rowlist64 = [[Finite 100]]\<rparr>
      \<lparr>width64 = 1, rowlist64 = [[Finite 100], [Finite 0]]\<rparr> = Inl AssertionError"
  "calculate_weights_sol64 \<lparr>width64 = 1, rowlist64 = [[Finite 100]]\<rparr>
      \<lparr>width64 = 1, rowlist64 = [[Finite 100], [Finite 0]]\<rparr> = Inl AssertionError"
proof -
  let ?q = "\<lparr>width64 = 1, rowlist64 = [[Finite 100]]\<rparr>"
  let ?k = "\<lparr>width64 = 1, rowlist64 = [[Finite 100], [Finite 0]]\<rparr>"
  let ?d = "\<lparr>width64 = 2, rowlist64 = [[Finite 10000, Finite 0]]\<rparr>"
  have sh: "shape0_64 ?q = Suc 0" "shape0_64 ?k = 2"
    by (simp_all add: shape0_64_def)
  have sc: "score64 ?q ?k 0 0 = Finite 10000" "score64 ?q ?k 0 (Suc 0) = Finite 0"
    by (simp_all add: score64_1col elem64_def f_ops small_numbers to_float64_0)
  show "np_dot64 ?q (transpose64 ?k) = Inr ?d"
    using sc unfolding dot_transpose64 sh by (simp add: tabulate64_def upt_2)
  show "np_exp64 ?d = \<lparr>width64 = 2, rowlist64 = [[PosInf, Finite 1]]\<rparr>"
    by (simp add: np_exp64_def f_ops exp_overflows small_numbers)
  have dt: "?d = tabulate64 (Suc 0) 2 (score64 ?q ?k)"
    using sc by (simp add: tabulate64_def upt_2)
  have w: "softmax_rows64 (Suc 0) 2 (score64 ?q ?k)
      = \<lparr>width64 = 2, rowlist64 = [[NaN, Finite 0]]\<rparr>"
    unfolding softmax_rows64_1_2 sc by (simp add: f_ops exp_overflows small_numbers)
  show "softmax64 ?d 1 = Inr \<lparr>width64 = 2, rowlist64 = [[NaN, Finite 0]]\<rparr>"
    unfolding dt softmax64_tabulate w ..
  show "calculate_weights64 ?q ?k = Inl AssertionError"
    using calculate_weights64_value[of ?q ?k] unfolding sh w
    by (simp add: checked64_def f_ops)
  have one: "to_float64 (sqrt (real (width64 ?k))) = Finite 1"
    by (simp add: small_numbers)
  have w': "softmax_rows64 (Suc 0) 2 (\<lambda>i j. f_div (score64 ?q ?k i j) (Finite 1))
      = \<lparr>width64 = 2, rowlist64 = [[NaN, Finite 0]]\<rparr>"
    unfolding softmax_rows64_1_2 sc by (simp add: f_ops exp_overflows small_numbers to_float64_0)
  show "calculate_weights_sol64 ?q ?k = Inl AssertionError"
    using calculate_weights_sol64_value[of ?q ?k] unfolding sh one w'
    by (simp add: checked64_def f_ops)
qed

text \<open>
  Two queries \<open>(0)\<close> and \<open>(100)\<close> against the same keys: the first row of scores is \<open>(0, 0)\<close>
  with the weights \<open>(1/2, 1/2)\<close>, whose sum passes the assertion; the second row is the one
  above. The function returns.
\<close>

lemma weights64_two_queries:
  "calculate_weights64 \<lparr>width64 = 1, rowlist64 = [[Finite 0], [Finite 100]]\<rparr>
      \<lparr>width64 = 1, rowlist64 = [[Finite 100], [Finite 0]]\<rparr>
     = Inr \<lparr>width64 = 2, rowlist64 = [[Finite (1/2), Finite (1/2)], [NaN, Finite 0]]\<rparr>"
  "calculate_weights_sol64 \<lparr>width64 = 1, rowlist64 = [[Finite 0], [Finite 100]]\<rparr>
      \<lparr>width64 = 1, rowlist64 = [[Finite 100], [Finite 0]]\<rparr>
     = Inr \<lparr>width64 = 2, rowlist64 = [[Finite (1/2), Finite (1/2)], [NaN, Finite 0]]\<rparr>"
proof -
  let ?q = "\<lparr>width64 = 1, rowlist64 = [[Finite 0], [Finite 100]]\<rparr>"
  let ?k = "\<lparr>width64 = 1, rowlist64 = [[Finite 100], [Finite 0]]\<rparr>"
  let ?w = "\<lparr>width64 = 2, rowlist64 = [[Finite (1/2), Finite (1/2)], [NaN, Finite 0]]\<rparr>"
  have sh: "shape0_64 ?q = 2" "shape0_64 ?k = 2"
    by (simp_all add: shape0_64_def)
  have sc: "score64 ?q ?k 0 0 = Finite 0" "score64 ?q ?k 0 (Suc 0) = Finite 0"
    "score64 ?q ?k (Suc 0) 0 = Finite 10000" "score64 ?q ?k (Suc 0) (Suc 0) = Finite 0"
    by (simp_all add: score64_1col elem64_def f_ops small_numbers to_float64_0)
  have w: "softmax_rows64 2 2 (score64 ?q ?k) = ?w"
    unfolding softmax_rows64_2_2 sc by (simp add: f_ops exp_overflows small_numbers)
  have chk: "checked64 ?w = Inr ?w"
    by (simp add: checked64_def f_ops small_numbers)
  show "calculate_weights64 ?q ?k = Inr ?w"
    using calculate_weights64_value[of ?q ?k] unfolding sh w chk by simp
  have one: "to_float64 (sqrt (real (width64 ?k))) = Finite 1"
    by (simp add: small_numbers)
  have w': "softmax_rows64 2 2 (\<lambda>i j. f_div (score64 ?q ?k i j) (Finite 1)) = ?w"
    unfolding softmax_rows64_2_2 sc by (simp add: f_ops exp_overflows small_numbers to_float64_0)
  show "calculate_weights_sol64 ?q ?k = Inr ?w"
    using calculate_weights_sol64_value[of ?q ?k] unfolding sh one w' chk by simp
qed

section \<open>C1: the scaling by the square root of the feature dimension\<close>

text \<open>
  Claim C1. For every valid pair of queries and keys, \<open>calculate_weights\<close> divides the product
  \<open>queries \<cdot> keys\<^sup>T\<close> by the square root of the feature dimension before the row-wise
  softmax, so that the weights are \<open>spec_weights\<close>.

  The reference solution does (\<open>calculate_weights_sol_value\<close>); the executed cell does not
  (\<open>calculate_weights_value\<close>: it is the softmax of the unscaled scores), although its
  docstring and the notebook's formula announce scaled dot-product attention. With one query
  \<open>(1, 0, 0, 0)\<close> and the keys \<open>(1, 0, 0, 0)\<close> and \<open>(0, 0, 0, 0)\<close> the scores are 1 and 0 and
  the scaled scores 1/2 and 0: the cell returns the weights \<open>e / (e + 1)\<close> and \<open>1 / (e + 1)\<close>,
  the specification asks for \<open>\<surd>e / (\<surd>e + 1)\<close> and \<open>1 / (\<surd>e + 1)\<close>.
\<close>

theorem calculate_weights_cell_is_unscaled:
  "calculate_weights \<lparr>width = 4, rowlist = [[1, 0, 0, 0]]\<rparr>
      \<lparr>width = 4, rowlist = [[1, 0, 0, 0], [0, 0, 0, 0]]\<rparr>
     = Inr \<lparr>width = 2, rowlist = [[exp 1 / (exp 1 + 1), 1 / (exp 1 + 1)]]\<rparr> \<and>
   spec_weights \<lparr>width = 4, rowlist = [[1, 0, 0, 0]]\<rparr>
      \<lparr>width = 4, rowlist = [[1, 0, 0, 0], [0, 0, 0, 0]]\<rparr>
     = \<lparr>width = 2, rowlist = [[exp (1/2) / (exp (1/2) + 1), 1 / (exp (1/2) + 1)]]\<rparr> \<and>
   calculate_weights_sol \<lparr>width = 4, rowlist = [[1, 0, 0, 0]]\<rparr>
      \<lparr>width = 4, rowlist = [[1, 0, 0, 0], [0, 0, 0, 0]]\<rparr>
     = Inr (spec_weights \<lparr>width = 4, rowlist = [[1, 0, 0, 0]]\<rparr>
      \<lparr>width = 4, rowlist = [[1, 0, 0, 0], [0, 0, 0, 0]]\<rparr>) \<and>
   calculate_weights \<lparr>width = 4, rowlist = [[1, 0, 0, 0]]\<rparr>
      \<lparr>width = 4, rowlist = [[1, 0, 0, 0], [0, 0, 0, 0]]\<rparr>
     \<noteq> Inr (spec_weights \<lparr>width = 4, rowlist = [[1, 0, 0, 0]]\<rparr>
      \<lparr>width = 4, rowlist = [[1, 0, 0, 0], [0, 0, 0, 0]]\<rparr>)"
proof -
  let ?q = "\<lparr>width = 4, rowlist = [[1, 0, 0, 0]]\<rparr>"
  let ?k = "\<lparr>width = 4, rowlist = [[1, 0, 0, 0], [0, 0, 0, 0]]\<rparr>"
  have sh: "shape0 ?q = Suc 0" "shape0 ?k = 2" by (simp_all add: shape0_def)
  have sc: "score ?q ?k 0 0 = 1" "score ?q ?k 0 (Suc 0) = 0"
    by (simp_all add: score_def elem_def upt_4)
  have "calculate_weights ?q ?k = Inr (softmax_rows (shape0 ?q) (shape0 ?k) (score ?q ?k))"
    by (rule calculate_weights_value) (simp_all add: shape0_def)
  then have a: "calculate_weights ?q ?k
      = Inr \<lparr>width = 2, rowlist = [[exp 1 / (exp 1 + 1), 1 / (exp 1 + 1)]]\<rparr>"
    unfolding sh softmax_rows_1_2 sc by simp
  have b: "spec_weights ?q ?k
      = \<lparr>width = 2, rowlist = [[exp (1/2) / (exp (1/2) + 1), 1 / (exp (1/2) + 1)]]\<rparr>"
    unfolding spec_weights_def sh softmax_rows_1_2 sc by simp
  have c: "calculate_weights_sol ?q ?k = Inr (spec_weights ?q ?k)"
    by (rule calculate_weights_sol_value) (simp_all add: shape0_def)
  have "exp (1::real) / (exp 1 + 1) \<noteq> exp (1/2) / (exp (1/2) + 1)"
  proof
    assume "exp (1::real) / (exp 1 + 1) = exp (1/2) / (exp (1/2) + 1)"
    then have "exp (1::real) = exp (1/2)"
      using logistic_inj[of "exp 1" "exp (1/2)" 1] by simp
    then have "(1::real) = 1/2" by (simp only: exp_inj_iff)
    then show False by simp
  qed
  with a b have d: "calculate_weights ?q ?k \<noteq> Inr (spec_weights ?q ?k)" by simp
  from a b c d show ?thesis by blast
qed

section \<open>C2: rows of the weight matrix as probability distributions\<close>

text \<open>
  Claim C2. For every valid pair of queries and keys, every row of the matrix
  \<open>calculate_weights\<close> returns sums to 1 and every entry is non-negative.

  The assertion of the function says so (\<^verbatim>\<open>"Each row in weights must sum to 1"\<close>), but it
  reads the first row only, and \<open>softmax\<close> exponentiates the scores as they are. With the
  queries \<open>(0)\<close> and \<open>(100)\<close> and the keys \<open>(100)\<close> and \<open>(0)\<close>, a valid pair, the function returns
  the rows \<open>(1/2, 1/2)\<close> and \<open>(NaN, 0)\<close>: the second row has an entry that is no number and its
  sum is NaN. The executed cell and the reference solution agree.
\<close>

theorem weights_row_is_nan_on_overflow:
  "valid_qk64 \<lparr>width64 = 1, rowlist64 = [[Finite 0], [Finite 100]]\<rparr>
      \<lparr>width64 = 1, rowlist64 = [[Finite 100], [Finite 0]]\<rparr> \<and>
   calculate_weights64 \<lparr>width64 = 1, rowlist64 = [[Finite 0], [Finite 100]]\<rparr>
      \<lparr>width64 = 1, rowlist64 = [[Finite 100], [Finite 0]]\<rparr>
     = Inr \<lparr>width64 = 2, rowlist64 = [[Finite (1/2), Finite (1/2)], [NaN, Finite 0]]\<rparr> \<and>
   calculate_weights_sol64 \<lparr>width64 = 1, rowlist64 = [[Finite 0], [Finite 100]]\<rparr>
      \<lparr>width64 = 1, rowlist64 = [[Finite 100], [Finite 0]]\<rparr>
     = Inr \<lparr>width64 = 2, rowlist64 = [[Finite (1/2), Finite (1/2)], [NaN, Finite 0]]\<rparr> \<and>
   f_sum [NaN, Finite 0] = NaN \<and> \<not> f_eq (f_sum [NaN, Finite 0]) (Finite 1)"
proof -
  have v: "valid_qk64 \<lparr>width64 = 1, rowlist64 = [[Finite 0], [Finite 100]]\<rparr>
      \<lparr>width64 = 1, rowlist64 = [[Finite 100], [Finite 0]]\<rparr>"
    by (simp add: valid_qk64_def is_2d64_def shape0_64_def is_finite_def)
  have n: "f_sum [NaN, Finite 0] = NaN"
    by (simp add: f_ops)
  then have "\<not> f_eq (f_sum [NaN, Finite 0]) (Finite 1)"
    by (simp add: f_eq_def)
  with v n weights64_two_queries show ?thesis by simp
qed

section \<open>C3: how \<open>calculate_weights\<close> fails\<close>

text \<open>
  Claim C3, as amended. \<open>calculate_weights\<close> validates nothing itself; it returns no result
  where a numpy call or its own assertion raises. Whenever the column counts of queries and
  keys differ, the matrix product raises ValueError (numpy's shape mismatch), also when a
  matrix has no rows. When the column counts agree, queries with no rows end in an IndexError
  (the assertion reads the first row sum of an empty array) and keys with no rows (queries
  having a row) end in an AssertionError (that row sum is 0). The executed cell and the
  reference solution agree on all three.
\<close>

theorem calculate_weights_failures:
  "(width q \<noteq> width k \<longrightarrow>
      calculate_weights q k = Inl ValueError \<and> calculate_weights_sol q k = Inl ValueError) \<and>
   (width q = width k \<and> shape0 q = 0 \<longrightarrow>
      calculate_weights q k = Inl IndexError \<and> calculate_weights_sol q k = Inl IndexError) \<and>
   (width q = width k \<and> 0 < shape0 q \<and> shape0 k = 0 \<longrightarrow>
      calculate_weights q k = Inl AssertionError \<and>
      calculate_weights_sol q k = Inl AssertionError)"
  by (simp add: calculate_weights_mismatch calculate_weights_sol_mismatch
      calculate_weights_no_queries calculate_weights_sol_no_queries
      calculate_weights_no_keys calculate_weights_sol_no_keys)

text \<open>The three cases at a \<open>1 \<times> 2\<close> query against \<open>1 \<times> 3\<close> keys, and with an empty side.\<close>

theorem calculate_weights_failures_witness:
  "calculate_weights \<lparr>width = 2, rowlist = [[1, 2]]\<rparr> \<lparr>width = 3, rowlist = [[1, 2, 3]]\<rparr>
     = Inl ValueError \<and>
   calculate_weights_sol \<lparr>width = 2, rowlist = [[1, 2]]\<rparr> \<lparr>width = 3, rowlist = [[1, 2, 3]]\<rparr>
     = Inl ValueError \<and>
   calculate_weights \<lparr>width = 2, rowlist = []\<rparr> \<lparr>width = 2, rowlist = [[1, 2]]\<rparr>
     = Inl IndexError \<and>
   calculate_weights_sol \<lparr>width = 2, rowlist = []\<rparr> \<lparr>width = 2, rowlist = [[1, 2]]\<rparr>
     = Inl IndexError \<and>
   calculate_weights \<lparr>width = 2, rowlist = [[1, 2]]\<rparr> \<lparr>width = 2, rowlist = []\<rparr>
     = Inl AssertionError \<and>
   calculate_weights_sol \<lparr>width = 2, rowlist = [[1, 2]]\<rparr> \<lparr>width = 2, rowlist = []\<rparr>
     = Inl AssertionError"
  using
    calculate_weights_failures[of "\<lparr>width = 2, rowlist = [[1, 2]]\<rparr>"
      "\<lparr>width = 3, rowlist = [[1, 2, 3]]\<rparr>"]
    calculate_weights_failures[of "\<lparr>width = 2, rowlist = []\<rparr>"
      "\<lparr>width = 2, rowlist = [[1, 2]]\<rparr>"]
    calculate_weights_failures[of "\<lparr>width = 2, rowlist = [[1, 2]]\<rparr>"
      "\<lparr>width = 2, rowlist = []\<rparr>"]
  by (simp add: shape0_def)

text \<open>
  The claim as stated fails: no error is reserved for empty input. Three inputs with an empty
  matrix end in three different errors, and the first of them, where the column counts differ
  as well, in the very error of a shape mismatch between non-empty matrices (the last line).
\<close>

theorem empty_input_has_no_error_of_its_own:
  "calculate_weights \<lparr>width = 2, rowlist = []\<rparr> \<lparr>width = 3, rowlist = [[1, 2, 3]]\<rparr>
     = Inl ValueError \<and>
   calculate_weights \<lparr>width = 2, rowlist = []\<rparr> \<lparr>width = 2, rowlist = [[1, 2]]\<rparr>
     = Inl IndexError \<and>
   calculate_weights \<lparr>width = 2, rowlist = [[1, 2]]\<rparr> \<lparr>width = 2, rowlist = []\<rparr>
     = Inl AssertionError \<and>
   calculate_weights \<lparr>width = 2, rowlist = [[1, 2]]\<rparr> \<lparr>width = 3, rowlist = [[1, 2, 3]]\<rparr>
     = Inl ValueError"
  by (simp add: calculate_weights_mismatch calculate_weights_no_queries
      calculate_weights_no_keys shape0_def)

section \<open>C4: large scores\<close>

text \<open>
  Claim C4. For every valid pair whose scaled scores are large (of the order of \<open>10\<^sup>4\<close>),
  \<open>calculate_weights\<close> produces no NaN and no infinite entry, because the softmax subtracts the
  maximum of each row before it exponentiates.

  Neither version of \<open>softmax\<close> subtracts anything: it takes \<open>np.exp\<close> of the scores. With the
  query \<open>(100)\<close> and the keys \<open>(100)\<close> and \<open>(0)\<close> the scores are 10000 and 0, \<open>np.exp\<close> gives
  infinity and 1, and the weights are NaN and 0; the function then breaks its own assertion
  and returns nothing.
\<close>

theorem large_scores_give_nan_weights:
  "valid_qk64 \<lparr>width64 = 1, rowlist64 = [[Finite 100]]\<rparr>
      \<lparr>width64 = 1, rowlist64 = [[Finite 100], [Finite 0]]\<rparr> \<and>
   np_dot64 \<lparr>width64 = 1, rowlist64 = [[Finite 100]]\<rparr>
      (transpose64 \<lparr>width64 = 1, rowlist64 = [[Finite 100], [Finite 0]]\<rparr>)
     = Inr \<lparr>width64 = 2, rowlist64 = [[Finite 10000, Finite 0]]\<rparr> \<and>
   np_exp64 \<lparr>width64 = 2, rowlist64 = [[Finite 10000, Finite 0]]\<rparr>
     = \<lparr>width64 = 2, rowlist64 = [[PosInf, Finite 1]]\<rparr> \<and>
   softmax64 \<lparr>width64 = 2, rowlist64 = [[Finite 10000, Finite 0]]\<rparr> 1
     = Inr \<lparr>width64 = 2, rowlist64 = [[NaN, Finite 0]]\<rparr> \<and>
   softmax_sol64 \<lparr>width64 = 2, rowlist64 = [[Finite 10000, Finite 0]]\<rparr> 1
     = Inr \<lparr>width64 = 2, rowlist64 = [[NaN, Finite 0]]\<rparr> \<and>
   calculate_weights64 \<lparr>width64 = 1, rowlist64 = [[Finite 100]]\<rparr>
      \<lparr>width64 = 1, rowlist64 = [[Finite 100], [Finite 0]]\<rparr> = Inl AssertionError \<and>
   calculate_weights_sol64 \<lparr>width64 = 1, rowlist64 = [[Finite 100]]\<rparr>
      \<lparr>width64 = 1, rowlist64 = [[Finite 100], [Finite 0]]\<rparr> = Inl AssertionError"
proof -
  have v: "valid_qk64 \<lparr>width64 = 1, rowlist64 = [[Finite 100]]\<rparr>
      \<lparr>width64 = 1, rowlist64 = [[Finite 100], [Finite 0]]\<rparr>"
    by (simp add: valid_qk64_def is_2d64_def shape0_64_def is_finite_def)
  from v weights64_large_score show ?thesis
    by (simp add: softmax_sol64_axis1)
qed

section \<open>C5: attention as the weights times the values\<close>

text \<open>
  Claim C5. For every valid triple of queries, keys and values, \<open>attention_qkv\<close> returns the
  product of the weights and the values, an \<open>m \<times> e\<close> matrix whose row \<open>i\<close> is the convex
  combination of the rows of the values weighted by row \<open>i\<close> of the weights.

  \<open>attention_qkv\<close> multiplies what \<open>calculate_weights\<close> returns, and inherits its failures.
  With the queries \<open>(0)\<close> and \<open>(100)\<close>, the keys \<open>(100)\<close> and \<open>(0)\<close> and the values \<open>(1)\<close> and
  \<open>(2)\<close>, the second row of weights is \<open>(NaN, 0)\<close> and the output is \<open>(3/2)\<close> and \<open>(NaN)\<close>: its
  second row is no combination of the values. With the single query \<open>(100)\<close> the assertion of
  \<open>calculate_weights\<close> fails and \<open>attention_qkv\<close> returns nothing.
\<close>

theorem attention_row_is_nan_on_overflow:
  "valid_qkv64 \<lparr>width64 = 1, rowlist64 = [[Finite 0], [Finite 100]]\<rparr>
      \<lparr>width64 = 1, rowlist64 = [[Finite 100], [Finite 0]]\<rparr>
      \<lparr>width64 = 1, rowlist64 = [[Finite 1], [Finite 2]]\<rparr> \<and>
   attention_qkv64 \<lparr>width64 = 1, rowlist64 = [[Finite 0], [Finite 100]]\<rparr>
      \<lparr>width64 = 1, rowlist64 = [[Finite 100], [Finite 0]]\<rparr>
      \<lparr>width64 = 1, rowlist64 = [[Finite 1], [Finite 2]]\<rparr>
     = Inr \<lparr>width64 = 1, rowlist64 = [[Finite (3/2)], [NaN]]\<rparr> \<and>
   attention_qkv_sol64 \<lparr>width64 = 1, rowlist64 = [[Finite 0], [Finite 100]]\<rparr>
      \<lparr>width64 = 1, rowlist64 = [[Finite 100], [Finite 0]]\<rparr>
      \<lparr>width64 = 1, rowlist64 = [[Finite 1], [Finite 2]]\<rparr>
     = Inr \<lparr>width64 = 1, rowlist64 = [[Finite (3/2)], [NaN]]\<rparr> \<and>
   valid_qkv64 \<lparr>width64 = 1, rowlist64 = [[Finite 100]]\<rparr>
      \<lparr>width64 = 1, rowlist64 = [[Finite 100], [Finite 0]]\<rparr>
      \<lparr>width64 = 1, rowlist64 = [[Finite 1], [Finite 2]]\<rparr> \<and>
   attention_qkv64 \<lparr>width64 = 1, rowlist64 = [[Finite 100]]\<rparr>
      \<lparr>width64 = 1, rowlist64 = [[Finite 100], [Finite 0]]\<rparr>
      \<lparr>width64 = 1, rowlist64 = [[Finite 1], [Finite 2]]\<rparr> = Inl AssertionError \<and>
   attention_qkv_sol64 \<lparr>width64 = 1, rowlist64 = [[Finite 100]]\<rparr>
      \<lparr>width64 = 1, rowlist64 = [[Finite 100], [Finite 0]]\<rparr>
      \<lparr>width64 = 1, rowlist64 = [[Finite 1], [Finite 2]]\<rparr> = Inl AssertionError"
proof -
  let ?q = "\<lparr>width64 = 1, rowlist64 = [[Finite 0], [Finite 100]]\<rparr>"
  let ?q1 = "\<lparr>width64 = 1, rowlist64 = [[Finite 100]]\<rparr>"
  let ?k = "\<lparr>width64 = 1, rowlist64 = [[Finite 100], [Finite 0]]\<rparr>"
  let ?v = "\<lparr>width64 = 1, rowlist64 = [[Finite 1], [Finite 2]]\<rparr>"
  let ?w = "\<lparr>width64 = 2, rowlist64 = [[Finite (1/2), Finite (1/2)], [NaN, Finite 0]]\<rparr>"
  have v: "valid_qkv64 ?q ?k ?v" "valid_qkv64 ?q1 ?k ?v"
    by (simp_all add: valid_qkv64_def valid_qk64_def is_2d64_def shape0_64_def is_finite_def)
  have p: "np_dot64 ?w ?v = Inr \<lparr>width64 = 1, rowlist64 = [[Finite (3/2)], [NaN]]\<rparr>"
    by (simp add: np_dot64_def shape0_64_def tabulate64_def upt_2 elem64_def f_ops
        small_numbers to_float64_0)
  have a: "attention_qkv64 ?q ?k ?v = Inr \<lparr>width64 = 1, rowlist64 = [[Finite (3/2)], [NaN]]\<rparr>"
    using weights64_two_queries p by (simp add: attention_qkv64_def bind_res_def)
  have a': "attention_qkv_sol64 ?q ?k ?v
      = Inr \<lparr>width64 = 1, rowlist64 = [[Finite (3/2)], [NaN]]\<rparr>"
    using weights64_two_queries p
    by (simp add: attention_qkv_sol64_def np_matmul64_def bind_res_def)
  have b: "attention_qkv64 ?q1 ?k ?v = Inl AssertionError"
    using weights64_large_score by (simp add: attention_qkv64_def bind_res_def)
  have b': "attention_qkv_sol64 ?q1 ?k ?v = Inl AssertionError"
    using weights64_large_score by (simp add: attention_qkv_sol64_def bind_res_def)
  from v a a' b b' show ?thesis by simp
qed

section \<open>C6: one query, one key\<close>

text \<open>
  Claim C6. With a single query row and a single key and value row, \<open>calculate_weights\<close>
  returns exactly \<open>[[1.0]]\<close> and \<open>attention_qkv\<close> returns the value row.

  The only weight is \<open>exp s / exp s\<close>. With the query \<open>(30)\<close> and the key \<open>(30)\<close> the score is
  900, \<open>np.exp\<close> gives infinity and the weight is \<open>inf / inf\<close>, NaN: the assertion fails and
  neither \<open>calculate_weights\<close> nor \<open>attention_qkv\<close> returns, in both versions.
\<close>

theorem single_row_weights_fail_on_overflow:
  "valid_qkv64 \<lparr>width64 = 1, rowlist64 = [[Finite 30]]\<rparr>
      \<lparr>width64 = 1, rowlist64 = [[Finite 30]]\<rparr>
      \<lparr>width64 = 3, rowlist64 = [[Finite 7, Finite 8, Finite 9]]\<rparr> \<and>
   np_dot64 \<lparr>width64 = 1, rowlist64 = [[Finite 30]]\<rparr>
      (transpose64 \<lparr>width64 = 1, rowlist64 = [[Finite 30]]\<rparr>)
     = Inr \<lparr>width64 = 1, rowlist64 = [[Finite 900]]\<rparr> \<and>
   softmax64 \<lparr>width64 = 1, rowlist64 = [[Finite 900]]\<rparr> 1
     = Inr \<lparr>width64 = 1, rowlist64 = [[NaN]]\<rparr> \<and>
   calculate_weights64 \<lparr>width64 = 1, rowlist64 = [[Finite 30]]\<rparr>
      \<lparr>width64 = 1, rowlist64 = [[Finite 30]]\<rparr> = Inl AssertionError \<and>
   calculate_weights_sol64 \<lparr>width64 = 1, rowlist64 = [[Finite 30]]\<rparr>
      \<lparr>width64 = 1, rowlist64 = [[Finite 30]]\<rparr> = Inl AssertionError \<and>
   attention_qkv64 \<lparr>width64 = 1, rowlist64 = [[Finite 30]]\<rparr>
      \<lparr>width64 = 1, rowlist64 = [[Finite 30]]\<rparr>
      \<lparr>width64 = 3, rowlist64 = [[Finite 7, Finite 8, Finite 9]]\<rparr> = Inl AssertionError \<and>
   attention_qkv_sol64 \<lparr>width64 = 1, rowlist64 = [[Finite 30]]\<rparr>
      \<lparr>width64 = 1, rowlist64 = [[Finite 30]]\<rparr>
      \<lparr>width64 = 3, rowlist64 = [[Finite 7, Finite 8, Finite 9]]\<rparr> = Inl AssertionError"
proof -
  let ?q = "\<lparr>width64 = 1, rowlist64 = [[Finite 30]]\<rparr>"
  let ?v = "\<lparr>width64 = 3, rowlist64 = [[Finite 7, Finite 8, Finite 9]]\<rparr>"
  let ?d = "\<lparr>width64 = 1, rowlist64 = [[Finite 900]]\<rparr>"
  have v: "valid_qkv64 ?q ?q ?v"
    by (simp add: valid_qkv64_def valid_qk64_def is_2d64_def shape0_64_def is_finite_def)
  have sh: "shape0_64 ?q = Suc 0"
    by (simp add: shape0_64_def)
  have sc: "score64 ?q ?q 0 0 = Finite 900"
    by (simp add: score64_1col elem64_def f_ops small_numbers)
  have dt: "?d = tabulate64 (Suc 0) (Suc 0) (score64 ?q ?q)"
    using sc by (simp add: tabulate64_def)
  have d: "np_dot64 ?q (transpose64 ?q) = Inr ?d"
    unfolding dot_transpose64 sh dt by simp
  have w: "softmax_rows64 (Suc 0) (Suc 0) (score64 ?q ?q) = \<lparr>width64 = 1, rowlist64 = [[NaN]]\<rparr>"
    unfolding softmax_rows64_1_1 sc by (simp add: f_ops exp_overflows)
  have s: "softmax64 ?d 1 = Inr \<lparr>width64 = 1, rowlist64 = [[NaN]]\<rparr>"
    unfolding dt softmax64_tabulate w ..
  have c: "calculate_weights64 ?q ?q = Inl AssertionError"
    using calculate_weights64_value[of ?q ?q] unfolding sh w
    by (simp add: checked64_def f_ops)
  have one: "to_float64 (sqrt (real (width64 ?q))) = Finite 1"
    by (simp add: small_numbers)
  have w': "softmax_rows64 (Suc 0) (Suc 0) (\<lambda>i j. f_div (score64 ?q ?q i j) (Finite 1))
      = \<lparr>width64 = 1, rowlist64 = [[NaN]]\<rparr>"
    unfolding softmax_rows64_1_1 sc by (simp add: f_ops exp_overflows small_numbers)
  have c': "calculate_weights_sol64 ?q ?q = Inl AssertionError"
    using calculate_weights_sol64_value[of ?q ?q] unfolding sh one w'
    by (simp add: checked64_def f_ops)
  from v d s c c' show ?thesis
    by (simp add: attention_qkv64_def attention_qkv_sol64_def bind_res_def)
qed

section \<open>C7: the weights depend on the magnitude of the inputs\<close>

text \<open>
  Claim C7. There are a valid pair of queries and keys and a positive constant \<open>c\<close> such that
  \<open>calculate_weights\<close> returns different weights for \<open>(c \<cdot> queries, c \<cdot> keys)\<close> and for
  \<open>(queries, keys)\<close>: the query \<open>(1)\<close>, the keys \<open>(1)\<close> and \<open>(0)\<close> and \<open>c = 2\<close>, where the first
  weight is \<open>e / (e + 1)\<close> before and \<open>e\<^sup>4 / (e\<^sup>4 + 1)\<close> after the scaling. The same inputs separate
  the weights of the reference solution.
\<close>

theorem weights_not_scale_invariant:
  "\<exists>q k c. valid_qk q k \<and> 0 < c \<and>
     calculate_weights (nd_scale c q) (nd_scale c k) \<noteq> calculate_weights q k \<and>
     calculate_weights_sol (nd_scale c q) (nd_scale c k) \<noteq> calculate_weights_sol q k"
proof -
  let ?q = "\<lparr>width = 1, rowlist = [[1]]\<rparr>"
  let ?k = "\<lparr>width = 1, rowlist = [[1], [0]]\<rparr>"
  let ?q2 = "\<lparr>width = 1, rowlist = [[2]]\<rparr>"
  let ?k2 = "\<lparr>width = 1, rowlist = [[2], [0]]\<rparr>"
  have sc: "nd_scale 2 ?q = ?q2" "nd_scale 2 ?k = ?k2"
    by (simp_all add: nd_scale_def)
  have v: "valid_qk ?q ?k"
    by (simp add: valid_qk_def is_2d_def shape0_def)
  have sh: "shape0 ?q = Suc 0" "shape0 ?k = 2" "shape0 ?q2 = Suc 0" "shape0 ?k2 = 2"
    by (simp_all add: shape0_def)
  have s1: "score ?q ?k 0 0 = 1" "score ?q ?k 0 (Suc 0) = 0"
    and s2: "score ?q2 ?k2 0 0 = 4" "score ?q2 ?k2 0 (Suc 0) = 0"
    by (simp_all add: score_1col elem_def)
  have a: "calculate_weights ?q ?k
      = Inr \<lparr>width = 2, rowlist = [[exp 1 / (exp 1 + 1), 1 / (exp 1 + 1)]]\<rparr>"
    using calculate_weights_value[of ?q ?k] unfolding sh softmax_rows_1_2 s1 by simp
  have b: "calculate_weights ?q2 ?k2
      = Inr \<lparr>width = 2, rowlist = [[exp 4 / (exp 4 + 1), 1 / (exp 4 + 1)]]\<rparr>"
    using calculate_weights_value[of ?q2 ?k2] unfolding sh softmax_rows_1_2 s2 by simp
  have a': "calculate_weights_sol ?q ?k
      = Inr \<lparr>width = 2, rowlist = [[exp 1 / (exp 1 + 1), 1 / (exp 1 + 1)]]\<rparr>"
    using calculate_weights_sol_value[of ?q ?k]
    unfolding spec_weights_def sh softmax_rows_1_2 s1 by simp
  have b': "calculate_weights_sol ?q2 ?k2
      = Inr \<lparr>width = 2, rowlist = [[exp 4 / (exp 4 + 1), 1 / (exp 4 + 1)]]\<rparr>"
    using calculate_weights_sol_value[of ?q2 ?k2]
    unfolding spec_weights_def sh softmax_rows_1_2 s2 by simp
  have ne: "exp (4::real) / (exp 4 + 1) \<noteq> exp 1 / (exp 1 + 1)"
  proof
    assume "exp (4::real) / (exp 4 + 1) = exp 1 / (exp 1 + 1)"
    then have "exp (4::real) = exp 1"
      using logistic_inj[of "exp 4" "exp 1" 1] by simp
    then have "(4::real) = 1" by (simp only: exp_inj_iff)
    then show False by simp
  qed
  have "valid_qk ?q ?k \<and> (0::real) < 2 \<and>
     calculate_weights (nd_scale 2 ?q) (nd_scale 2 ?k) \<noteq> calculate_weights ?q ?k \<and>
     calculate_weights_sol (nd_scale 2 ?q) (nd_scale 2 ?k) \<noteq> calculate_weights_sol ?q ?k"
    unfolding sc a b a' b' using v ne by simp
  then show ?thesis by blast
qed

section \<open>C8: words outside the vocabulary\<close>

text \<open>
  Claim C8. \<open>tokenize\<close> never fails: it returns one token for each word of the lowered
  sentence, and a word absent from the vocabulary mapping yields the sentinel -1 (the KeyError
  of the lookup is caught). \<open>embed_tokens\<close>
  writes an all-zero row, as long as the embedding matrix is wide, for each sentinel: it
  returns whenever every other token is an index numpy accepts, and whenever it returns, the
  row at each position holding -1 is the zero row.
\<close>

theorem unknown_words_become_zero_rows:
  "(\<exists>ts. tokenize s m = Inr ts \<and> length ts = length (split_sp (lower s)) \<and>
      (\<forall>i<length (split_sp (lower s)). m (split_sp (lower s) ! i) = None \<longrightarrow> ts ! i = - 1)) \<and>
   ((\<forall>t\<in>set tokens. t = - 1 \<or> (- int (shape0 E) \<le> t \<and> t < int (shape0 E))) \<longrightarrow>
      (\<exists>out. embed_tokens tokens E = Inr out)) \<and>
   (\<forall>out. embed_tokens tokens E = Inr out \<longrightarrow>
      shape0 out = length tokens \<and> width out = width E \<and>
      (\<forall>i<length tokens. tokens ! i = - 1 \<longrightarrow>
         rowlist out ! i = replicate (width E) 0 \<and> length (rowlist out ! i) = width E))"
proof -
  have a: "\<exists>ts. tokenize s m = Inr ts \<and> length ts = length (split_sp (lower s)) \<and>
      (\<forall>i<length (split_sp (lower s)). m (split_sp (lower s) ! i) = None \<longrightarrow> ts ! i = - 1)"
    by (simp add: tokenize_map token_of_def)
  have c: "(\<forall>t\<in>set tokens. t = - 1 \<or> (- int (shape0 E) \<le> t \<and> t < int (shape0 E))) \<longrightarrow>
      (\<exists>out. embed_tokens tokens E = Inr out)"
    by (simp add: embed_returns_iff)
  have d: "\<forall>out. embed_tokens tokens E = Inr out \<longrightarrow>
      shape0 out = length tokens \<and> width out = width E \<and>
      (\<forall>i<length tokens. tokens ! i = - 1 \<longrightarrow>
         rowlist out ! i = replicate (width E) 0 \<and> length (rowlist out ! i) = width E)"
  proof (intro allI impI)
    fix out
    assume r: "embed_tokens tokens E = Inr out"
    then have "\<forall>t\<in>set tokens. t = - 1 \<or> (- int (shape0 E) \<le> t \<and> t < int (shape0 E))"
      using embed_returns_iff[of tokens E] by blast
    from embed_ok[OF this] r
    have "out = \<lparr>width = width E, rowlist = map (embed_row E) tokens\<rparr>" by simp
    then show "shape0 out = length tokens \<and> width out = width E \<and>
      (\<forall>i<length tokens. tokens ! i = - 1 \<longrightarrow>
         rowlist out ! i = replicate (width E) 0 \<and> length (rowlist out ! i) = width E)"
      by (simp add: shape0_def embed_row_def)
  qed
  from a c d show ?thesis by blast
qed

text \<open>
  The sentence \<open>The zzz\<close> with the vocabulary \<open>the \<mapsto> 0\<close>, and the tokens 0 and -1 with a
  one-row embedding matrix of width 2.
\<close>

theorem unknown_words_become_zero_rows_witness:
  "[''the'' \<mapsto> (0::int)] (split_sp (lower ''The zzz'') ! 1) = None \<and>
   (\<exists>ts. tokenize ''The zzz'' [''the'' \<mapsto> 0] = Inr ts \<and> length ts = 2 \<and> ts ! 1 = - 1) \<and>
   (\<exists>out. embed_tokens [0, - 1] \<lparr>width = 2, rowlist = [[5, 6]]\<rparr> = Inr out \<and>
      shape0 out = 2 \<and> width out = 2 \<and> rowlist out ! 1 = [0, 0])"
proof -
  let ?m = "[''the'' \<mapsto> (0::int)]"
  let ?E = "\<lparr>width = 2, rowlist = [[5, 6]]\<rparr>"
  have w: "split_sp (lower ''The zzz'') = [''the'', ''zzz'']" by code_simp
  have n: "?m (split_sp (lower ''The zzz'') ! 1) = None" by (simp add: w)
  have ok: "\<forall>t\<in>set [0, - 1]. t = - 1 \<or> (- int (shape0 ?E) \<le> t \<and> t < int (shape0 ?E))"
    by (simp add: shape0_def)
  note c = unknown_words_become_zero_rows[of "''The zzz''" ?m "[0, - 1]" ?E]
  from c ok obtain out where out: "embed_tokens [0, - 1] ?E = Inr out" by blast
  with c have o: "shape0 out = 2" "width out = 2" "rowlist out ! 1 = [0, 0]"
    by (simp_all add: numeral_2_eq_2)
  from c obtain ts where ts: "tokenize ''The zzz'' ?m = Inr ts"
    "length ts = length (split_sp (lower ''The zzz''))"
    "\<forall>i<length (split_sp (lower ''The zzz'')).
       ?m (split_sp (lower ''The zzz'') ! i) = None \<longrightarrow> ts ! i = - 1"
    by blast
  from ts(2) have l: "length ts = 2" by (simp add: w)
  from ts(3)[rule_format, of 1] n have t: "ts ! 1 = - 1" by (simp add: w)
  from n ts(1) l t out o show ?thesis by blast
qed

section \<open>C9: letter case\<close>

text \<open>
  Claim C9. \<open>tokenize\<close> lowers the sentence before it looks the words up: for every sentence
  \<open>s\<close> and mapping \<open>m\<close>, \<open>tokenize s m = tokenize (lower s) m\<close>, and two sentences that differ
  only in letter case (their lowered forms are equal) give the same tokens.
\<close>

theorem tokenize_ignores_case:
  "tokenize s m = tokenize (lower s) m \<and>
   (lower s1 = lower s2 \<longrightarrow> tokenize s1 m = tokenize s2 m)"
  by (simp add: tokenize_map lower_idem)

text \<open>\<open>The Cat\<close> and \<open>tHE cAT\<close> with a vocabulary of two words.\<close>

theorem tokenize_ignores_case_witness:
  "lower ''The Cat'' = lower ''tHE cAT'' \<and>
   tokenize ''The Cat'' [''the'' \<mapsto> 0, ''cat'' \<mapsto> 1]
     = tokenize ''tHE cAT'' [''the'' \<mapsto> 0, ''cat'' \<mapsto> 1] \<and>
   tokenize ''The Cat'' [''the'' \<mapsto> 0, ''cat'' \<mapsto> 1]
     = tokenize (lower ''The Cat'') [''the'' \<mapsto> 0, ''cat'' \<mapsto> 1]"
proof -
  have "lower ''The Cat'' = ''the cat''" "lower ''tHE cAT'' = ''the cat''"
    by code_simp+
  then have e: "lower ''The Cat'' = lower ''tHE cAT''" by simp
  from tokenize_ignores_case[of "''The Cat''" "[''the'' \<mapsto> 0, ''cat'' \<mapsto> 1]"
      "''The Cat''" "''tHE cAT''"] e
  show ?thesis by blast
qed

section \<open>C10: negative tokens other than the sentinel\<close>

text \<open>
  Claim C10, as amended. \<open>embed_tokens\<close> treats only -1 as the sentinel. When every token is
  -1 or an index numpy accepts (from minus the number of embedding rows up to that number
  less one), it returns, and the row of every other negative token \<open>k\<close> is the embedding row
  \<open>vocabulary_size + k\<close>: a lookup counted from the last row. A token below minus the number
  of embedding rows (other than -1) makes the lookup raise IndexError, and \<open>embed_tokens\<close>
  returns nothing.
\<close>

theorem negative_tokens_wrap_around:
  "((\<forall>t\<in>set tokens. t = - 1 \<or> (- int (shape0 E) \<le> t \<and> t < int (shape0 E))) \<longrightarrow>
      (\<exists>out. embed_tokens tokens E = Inr out \<and>
         (\<forall>i<length tokens. tokens ! i < - 1 \<longrightarrow>
            rowlist out ! i = rowlist E ! nat (int (shape0 E) + tokens ! i)))) \<and>
   ((\<exists>t\<in>set tokens. t \<noteq> - 1 \<and> t < - int (shape0 E)) \<longrightarrow>
      embed_tokens tokens E = Inl IndexError)"
proof (intro conjI impI)
  assume "\<forall>t\<in>set tokens. t = - 1 \<or> (- int (shape0 E) \<le> t \<and> t < int (shape0 E))"
  from embed_ok[OF this]
  show "\<exists>out. embed_tokens tokens E = Inr out \<and>
         (\<forall>i<length tokens. tokens ! i < - 1 \<longrightarrow>
            rowlist out ! i = rowlist E ! nat (int (shape0 E) + tokens ! i))"
    by (simp add: embed_row_def)
next
  assume "\<exists>t\<in>set tokens. t \<noteq> - 1 \<and> t < - int (shape0 E)"
  then have "\<exists>t\<in>set tokens. t \<noteq> - 1 \<and> (t < - int (shape0 E) \<or> int (shape0 E) \<le> t)"
    by blast
  then show "embed_tokens tokens E = Inl IndexError" by (rule embed_err)
qed

text \<open>Three embedding rows: -2 selects the second row and -3 the first; -4 is out of range.\<close>

theorem negative_tokens_wrap_around_witness:
  "(\<exists>out. embed_tokens [- 2, - 1, - 3] \<lparr>width = 2, rowlist = [[1, 2], [3, 4], [5, 6]]\<rparr>
             = Inr out \<and>
      rowlist out ! 0 = [3, 4] \<and> rowlist out ! 2 = [1, 2]) \<and>
   embed_tokens [- 2, - 4] \<lparr>width = 2, rowlist = [[1, 2], [3, 4], [5, 6]]\<rparr> = Inl IndexError"
proof -
  let ?E = "\<lparr>width = 2, rowlist = [[1, 2], [3, 4], [5, 6]]\<rparr>"
  let ?ts = "[- 2, - 1, - 3 :: int]"
  have ok: "\<forall>t\<in>set ?ts. t = - 1 \<or> (- int (shape0 ?E) \<le> t \<and> t < int (shape0 ?E))"
    by (simp add: shape0_def)
  have bad: "\<exists>t\<in>set [- 2, - 4]. t \<noteq> - 1 \<and> t < - int (shape0 ?E)"
    by (simp add: shape0_def)
  from negative_tokens_wrap_around[of ?ts ?E] ok
  obtain out where out: "embed_tokens ?ts ?E = Inr out"
    and r: "\<forall>i<length ?ts. ?ts ! i < - 1 \<longrightarrow>
            rowlist out ! i = rowlist ?E ! nat (int (shape0 ?E) + ?ts ! i)"
    by blast
  from r[rule_format, of 0] have r0: "rowlist out ! 0 = [3, 4]"
    by (simp add: shape0_def)
  from r[rule_format, of 2] have r2: "rowlist out ! 2 = [1, 2]"
    by (simp add: shape0_def)
  from negative_tokens_wrap_around[of "[- 2, - 4]" ?E] bad
  have "embed_tokens [- 2, - 4] ?E = Inl IndexError" by blast
  with out r0 r2 show ?thesis by blast
qed

text \<open>
  The claim as stated fails for a negative token below the range: with two embedding rows the
  token -3 is neither the sentinel nor a row counted from the end, and the lookup raises.
\<close>

theorem token_below_range_raises:
  "embed_tokens [- 3] \<lparr>width = 1, rowlist = [[1], [2]]\<rparr> = Inl IndexError"
  by (simp add: embed_tokens_def getitem_def shape0_def Let_def)

end
